theory Spec2Isabelle
  imports Main "HOL-Library.AList"
begin

section \<open>Python strings\<close>

text \<open>
  A Python \<open>str\<close> is a sequence of Unicode code points. The model keeps it as the list of
  these code points, so that \<open>strip\<close>, \<open>find\<close>, slicing and the JSON decoder count and
  compare what Python counts and compares. \<open>py\<close> writes a literal.
\<close>

type_synonym pystr = "nat list"

definition py :: "string \<Rightarrow> pystr" where
  "py s = map of_char s"

text \<open>\<open>str.isspace\<close> for one code point: the characters \<open>str.strip()\<close> removes.\<close>

definition isspace :: "nat \<Rightarrow> bool" where
  "isspace c \<longleftrightarrow>
     (9 \<le> c \<and> c \<le> 13) \<or> (28 \<le> c \<and> c \<le> 32) \<or> c = 133 \<or> c = 160 \<or> c = 5760 \<or>
     (8192 \<le> c \<and> c \<le> 8202) \<or> c = 8232 \<or> c = 8233 \<or> c = 8239 \<or> c = 8287 \<or> c = 12288"

definition strip :: "pystr \<Rightarrow> pystr" where
  "strip s = rev (dropWhile isspace (rev (dropWhile isspace s)))"

text \<open>\<open>s.startswith(c)\<close> for a one-character \<open>c\<close>.\<close>

fun startswith :: "pystr \<Rightarrow> nat \<Rightarrow> bool" where
  "startswith [] c = False"
| "startswith (x # xs) c = (x = c)"

text \<open>\<open>s.find(c)\<close> and \<open>s.rfind(c)\<close> for a one-character \<open>c\<close>: the index, or -1.\<close>

fun find_str :: "pystr \<Rightarrow> nat \<Rightarrow> int" where
  "find_str [] c = -1"
| "find_str (x # xs) c =
     (if x = c then 0 else (let r = find_str xs c in if r = -1 then -1 else r + 1))"

definition rfind :: "pystr \<Rightarrow> nat \<Rightarrow> int" where
  "rfind s c = (let r = find_str (rev s) c in if r = -1 then -1 else int (length s) - 1 - r)"

text \<open>\<open>s[a:b]\<close>: a negative index counts from the end, and both are clamped to the string.\<close>

definition slice_index :: "nat \<Rightarrow> int \<Rightarrow> nat" where
  "slice_index n i = (let j = (if i < 0 then i + int n else i) in nat (min (int n) (max 0 j)))"

definition slice :: "pystr \<Rightarrow> int \<Rightarrow> int \<Rightarrow> pystr" where
  "slice s a b = (let lo = slice_index (length s) a; hi = slice_index (length s) b
                  in take (hi - lo) (drop lo s))"

text \<open>
  The repair step, written twice in \<open>planner.py\<close> (lines 131-137 with braces, lines 249-254
  with brackets):
  \<^verbatim>\<open>
    cleaned_response = response.strip()
    if not cleaned_response.startswith('{'):
        start = cleaned_response.find('{')
        end = cleaned_response.rfind('}')
        if start != -1 and end != -1:
            cleaned_response = cleaned_response[start:end+1]
  \<close>
\<close>

definition cleaned_response :: "nat \<Rightarrow> nat \<Rightarrow> pystr \<Rightarrow> pystr" where
  "cleaned_response opening closing response =
     (let cleaned = strip response in
      if \<not> startswith cleaned opening then
        (let start = find_str cleaned opening; end = rfind cleaned closing in
         if start \<noteq> -1 \<and> end \<noteq> -1 then slice cleaned start (end + 1) else cleaned)
      else cleaned)"

definition LBRACE :: nat where "LBRACE = 123"
definition RBRACE :: nat where "RBRACE = 125"
definition LBRACKET :: nat where "LBRACKET = 91"
definition RBRACKET :: nat where "RBRACKET = 93"

section \<open>Exceptions and values\<close>

text \<open>
  The exceptions the code raises or lets through, each with what tells one instance from
  another: the provider's message, the text that failed to parse, the message the code
  itself wrote.
  \<^item> \<open>RateLimitError\<close>, \<open>APIError\<close>: instances of \<open>openai.RateLimitError\<close> and of
    \<open>openai.APIError\<close>; \<open>OtherException\<close>: any other exception of the LLM chain.
  \<^item> \<open>RetryError e\<close>: \<open>tenacity.RetryError\<close>, raised when the attempts are used up, holding
    the last attempt's exception.
  \<^item> \<open>JSONDecodeError s\<close>: \<open>json.loads(s)\<close> failed; \<open>InvalidId s\<close>: \<open>ObjectId(s)\<close> failed.
  \<^item> \<open>TypeError\<close>, \<open>AttributeError\<close>: raised by the interpreter, tagged with the operation.
  \<^item> \<open>ValueError msg\<close>, \<open>HTTPException status detail\<close>: raised by the code, with the text
    the code gave them.
\<close>

datatype exn =
    RateLimitError pystr
  | APIError pystr
  | OtherException pystr
  | RetryError exn
  | JSONDecodeError pystr
  | ValueError pystr
  | TypeError pystr
  | KeyError pystr
  | AttributeError pystr
  | InvalidId pystr
  | HTTPException nat pystr

text \<open>
  \<open>str(e)\<close>. An exception the code raised with a message prints that message. The text
  a library prints for its own exception is left open: \<open>library_text\<close> is some function
  of the exception, about which nothing more is known.
\<close>

definition library_text :: "exn \<Rightarrow> pystr" where
  "library_text = undefined"

fun str_exn :: "exn \<Rightarrow> pystr" where
  "str_exn (ValueError msg) = msg"
| "str_exn e = library_text e"

text \<open>
  Python values as they sit in documents, JSON data and results. A \<open>dict\<close> is the list of
  its items in insertion order. \<open>PFloat\<close> holds the literal a float was read from,
  \<open>PDatetime\<close> a reading of the clock, \<open>PObjectId\<close> the 24 hexadecimal digits (lower case)
  of a \<open>bson.ObjectId\<close>.
\<close>

datatype pyval =
    PNone
  | PBool bool
  | PInt int
  | PFloat pystr
  | PStr pystr
  | PDatetime nat
  | PObjectId pystr
  | PList "pyval list"
  | PDict "(pystr \<times> pyval) list"

type_synonym document = "(pystr \<times> pyval) list"

text \<open>
  Truth value of a Python object (\<open>if project:\<close>, \<open>if not response\<close>). A float is false
  when it is zero: when its literal has no digit but 0 before the exponent.
\<close>

definition float_nonzero :: "pystr \<Rightarrow> bool" where
  "float_nonzero lit \<longleftrightarrow>
     list_ex (\<lambda>c. 49 \<le> c \<and> c \<le> 57) (takeWhile (\<lambda>c. c \<noteq> 101 \<and> c \<noteq> 69) lit) \<or>
     lit \<in> {py ''NaN'', py ''Infinity'', py ''-Infinity''}"

fun truthy :: "pyval \<Rightarrow> bool" where
  "truthy PNone = False"
| "truthy (PBool b) = b"
| "truthy (PInt i) = (i \<noteq> 0)"
| "truthy (PFloat lit) = float_nonzero lit"
| "truthy (PStr s) = (s \<noteq> [])"
| "truthy (PList xs) = (xs \<noteq> [])"
| "truthy (PDict kvs) = (kvs \<noteq> [])"
| "truthy (PDatetime t) = True"
| "truthy (PObjectId oid) = True"

subsection \<open>Dictionaries\<close>

text \<open>
  \<open>d.get(k)\<close> is \<open>map_of d k\<close>, \<open>d[k] = v\<close> is \<open>AList.update k v d\<close> (an existing key
  keeps its place, a new one goes last), \<open>del d[k]\<close> is \<open>AList.delete k d\<close>.
  \<open>items\<close> lists each key once, with the value a lookup gives; \<open>dict_update\<close> is
  \<open>d.update(other)\<close>, which is also what MongoDB's \<open>$set\<close> does to the top-level fields
  of a document.
\<close>

definition get_default :: "document \<Rightarrow> pystr \<Rightarrow> pyval \<Rightarrow> pyval" where
  "get_default d k dflt = (case map_of d k of Some v \<Rightarrow> v | None \<Rightarrow> dflt)"

definition getitem :: "document \<Rightarrow> pystr \<Rightarrow> exn + pyval" where
  "getitem d k = (case map_of d k of Some v \<Rightarrow> Inr v | None \<Rightarrow> Inl (KeyError k))"

definition items :: "document \<Rightarrow> document" where
  "items d = map (\<lambda>k. (k, get_default d k PNone)) (remdups (map fst d))"

definition dict_update :: "document \<Rightarrow> document \<Rightarrow> document" where
  "dict_update d other = fold (\<lambda>(k, v). AList.update k v) (items other) d"

subsection \<open>Iteration and membership\<close>

text \<open>
  \<open>for x in v\<close>: a list gives its elements, a string its characters, a dict its keys;
  nothing else in the model can be iterated.
\<close>

fun iterate :: "pyval \<Rightarrow> exn + pyval list" where
  "iterate (PList xs) = Inr xs"
| "iterate (PStr s) = Inr (map (\<lambda>c. PStr [c]) s)"
| "iterate (PDict kvs) = Inr (map (\<lambda>(k, v). PStr k) (items kvs))"
| "iterate v = Inl (TypeError (py ''object is not iterable''))"

text \<open>\<open>sub in s\<close> for two strings.\<close>

fun contains_str :: "pystr \<Rightarrow> pystr \<Rightarrow> bool" where
  "contains_str [] sub = (sub = [])"
| "contains_str (c # s) sub = (take (length sub) (c # s) = sub \<or> contains_str s sub)"

text \<open>
  \<open>field in v\<close> for a string \<open>field\<close>: a key of a dict, an element of a list, a substring
  of a string; any other \<open>v\<close> raises \<open>TypeError\<close>.
\<close>

fun contains :: "pyval \<Rightarrow> pystr \<Rightarrow> exn + bool" where
  "contains (PDict kvs) field = Inr (map_of kvs field \<noteq> None)"
| "contains (PList xs) field = Inr (PStr field \<in> set xs)"
| "contains (PStr s) field = Inr (contains_str s field)"
| "contains v field = Inl (TypeError (py ''argument is not iterable''))"

subsection \<open>Object ids\<close>

text \<open>
  \<open>bson.ObjectId(s)\<close> for a string: the documented format is 24 hexadecimal digits,
  anything else raises \<open>InvalidId\<close>. Two spellings that differ in the case of a digit
  are the same id. \<open>str(oid)\<close> is the 24 digits in lower case, which is how the model
  keeps an id.
\<close>

definition ishex :: "nat \<Rightarrow> bool" where
  "ishex c \<longleftrightarrow> (48 \<le> c \<and> c \<le> 57) \<or> (97 \<le> c \<and> c \<le> 102) \<or> (65 \<le> c \<and> c \<le> 70)"

definition lower :: "nat \<Rightarrow> nat" where
  "lower c = (if 65 \<le> c \<and> c \<le> 90 then c + 32 else c)"

definition is_valid :: "pystr \<Rightarrow> bool" where
  "is_valid s \<longleftrightarrow> length s = 24 \<and> list_all ishex s"

definition ObjectId :: "pystr \<Rightarrow> exn + pystr" where
  "ObjectId s = (if is_valid s then Inr (map lower s) else Inl (InvalidId s))"

text \<open>
  \<open>str(v)\<close>: a string is itself and an \<open>ObjectId\<close> prints its digits. What Python prints
  for a value of another type is left open, as \<open>library_text\<close> is.
\<close>

definition repr_text :: "pyval \<Rightarrow> pystr" where
  "repr_text = undefined"

fun str_value :: "pyval \<Rightarrow> pystr" where
  "str_value (PStr s) = s"
| "str_value (PObjectId oid) = oid"
| "str_value v = repr_text v"

section \<open>The retry wrapper\<close>

text \<open>
  \<open>call_with_retry\<close> (planner.py lines 110-119 and 235-241) is the chain invocation under
  \<^verbatim>\<open>
    @tenacity.retry(stop=tenacity.stop_after_attempt(3),
                    wait=tenacity.wait_exponential(multiplier=1, min=4, max=60),
                    retry=tenacity.retry_if_exception_type((RateLimitError, APIError)))
  \<close>
  The provider is the sequence of outcomes of its successive calls: \<open>llm i\<close> is what call
  number \<open>i\<close> (from 0) does. The wrapper's result comes with the number of calls made and
  the list of waits (in seconds) slept between them.
\<close>

datatype outcome = Returns pystr | Raises exn

fun retry_if_exception_type :: "exn \<Rightarrow> bool" where
  "retry_if_exception_type (RateLimitError msg) = True"
| "retry_if_exception_type (APIError msg) = True"
| "retry_if_exception_type e = False"

definition stop_after_attempt :: "nat \<Rightarrow> bool" where
  "stop_after_attempt attempt_number \<longleftrightarrow> attempt_number \<ge> 3"

definition wait_exponential :: "nat \<Rightarrow> nat" where
  "wait_exponential attempt_number = max 4 (min (1 * 2 ^ (attempt_number - 1)) 60)"

function retrying :: "(nat \<Rightarrow> outcome) \<Rightarrow> nat \<Rightarrow> nat list \<Rightarrow> (exn + pystr) \<times> nat \<times> nat list" where
  "retrying llm attempt_number waits =
     (case llm (attempt_number - 1) of
        Returns r \<Rightarrow> (Inr r, attempt_number, waits)
      | Raises e \<Rightarrow>
          if \<not> retry_if_exception_type e then (Inl e, attempt_number, waits)
          else if stop_after_attempt attempt_number then (Inl (RetryError e), attempt_number, waits)
          else retrying llm (attempt_number + 1) (waits @ [wait_exponential attempt_number]))"
  by pat_completeness auto
termination
  by (relation "measure (\<lambda>(llm, n, waits). 3 - n)") (auto simp: stop_after_attempt_def)

declare retrying.simps [simp del]

definition call_with_retry :: "(nat \<Rightarrow> outcome) \<Rightarrow> (exn + pystr) \<times> nat \<times> nat list" where
  "call_with_retry llm = retrying llm 1 []"

lemma retrying_third:
  "retrying llm 3 waits =
     (case llm 2 of Returns r \<Rightarrow> (Inr r, 3, waits)
      | Raises e \<Rightarrow> if \<not> retry_if_exception_type e then (Inl e, 3, waits)
                    else (Inl (RetryError e), 3, waits))"
  by (subst retrying.simps) (simp add: stop_after_attempt_def split: outcome.splits)

lemma retrying_second:
  "retrying llm 2 waits =
     (case llm 1 of Returns r \<Rightarrow> (Inr r, 2, waits)
      | Raises e \<Rightarrow> if \<not> retry_if_exception_type e then (Inl e, 2, waits)
                    else retrying llm 3 (waits @ [4]))"
  by (subst retrying.simps)
     (simp add: stop_after_attempt_def wait_exponential_def split: outcome.splits)

lemma retrying_first:
  "retrying llm 1 waits =
     (case llm 0 of Returns r \<Rightarrow> (Inr r, 1, waits)
      | Raises e \<Rightarrow> if \<not> retry_if_exception_type e then (Inl e, 1, waits)
                    else retrying llm 2 (waits @ [4]))"
  by (subst retrying.simps)
     (simp add: stop_after_attempt_def wait_exponential_def numeral_2_eq_2 split: outcome.splits)

lemmas retrying_unroll = call_with_retry_def retrying_first retrying_second retrying_third

section \<open>The document store\<close>

text \<open>
  The two collections of the MongoDB database, each the list of its documents in the
  order a scan meets them. A filter \<open>{field: v}\<close> selects the documents whose \<open>field\<close> is
  \<open>v\<close>; \<open>$set\<close> writes top-level fields. The server also gives a row it inserts an
  \<open>_id\<close>; no operation here reads the \<open>_id\<close> of a plan row, and the model leaves it out.

  \<open>MongoDB.db\<close> is \<open>None\<close> until the connection is made: the handle is a
  \<open>database option\<close>, passed in and returned by every operation that may write.
\<close>

record database =
  projects :: "document list"
  project_plans :: "document list"

definition matches :: "pystr \<Rightarrow> pyval \<Rightarrow> document \<Rightarrow> bool" where
  "matches field v d \<longleftrightarrow> map_of d field = Some v"

definition find_one :: "document list \<Rightarrow> pystr \<Rightarrow> pyval \<Rightarrow> document option" where
  "find_one coll field v = List.find (matches field v) coll"

fun replace_first :: "(document \<Rightarrow> bool) \<Rightarrow> (document \<Rightarrow> document) \<Rightarrow> document list \<Rightarrow> document list" where
  "replace_first P f [] = []"
| "replace_first P f (d # ds) = (if P d then f d # ds else d # replace_first P f ds)"

text \<open>\<open>coll.update_one({field: v}, {"$set": set_doc}, upsert=True)\<close>.\<close>

definition update_one_upsert :: "document list \<Rightarrow> pystr \<Rightarrow> pyval \<Rightarrow> document \<Rightarrow> document list" where
  "update_one_upsert coll field v set_doc =
     (case find_one coll field v of
        Some d \<Rightarrow> replace_first (matches field v) (\<lambda>d. dict_update d set_doc) coll
      | None \<Rightarrow> coll @ [dict_update [(field, v)] set_doc])"


definition not_initialized :: exn where
  "not_initialized = HTTPException 500 (py ''Database connection not initialized'')"

section \<open>The persistence gateway (core/mongodb.py)\<close>

text \<open>
  \<open>MongoDB.get_project\<close>, in its two copies. Both raise what \<open>ObjectId(project_id)\<close>
  raises (the handler logs and re-raises); they differ in the last line, \<open>return None\<close>
  in \<open>src/app\<close> and \<open>return {}\<close> in \<open>src/planner-agent-\<close>.
\<close>

definition get_project_found :: "document \<Rightarrow> exn + pyval" where
  "get_project_found project =
     (case getitem project (py ''_id'') of
        Inl e \<Rightarrow> Inl e
      | Inr v \<Rightarrow> Inr (PDict (AList.update (py ''_id'') (PStr (str_value v)) project)))"

definition get_project_app :: "database option \<Rightarrow> pystr \<Rightarrow> exn + pyval" where
  "get_project_app db project_id =
     (case db of
        None \<Rightarrow> Inl not_initialized
      | Some d \<Rightarrow>
          (case ObjectId project_id of
             Inl e \<Rightarrow> Inl e
           | Inr obj_id \<Rightarrow>
               (case find_one (projects d) (py ''_id'') (PObjectId obj_id) of
                  Some project \<Rightarrow>
                    if truthy (PDict project) then get_project_found project else Inr PNone
                | None \<Rightarrow> Inr PNone)))"

definition get_project_planner_agent :: "database option \<Rightarrow> pystr \<Rightarrow> exn + pyval" where
  "get_project_planner_agent db project_id =
     (case db of
        None \<Rightarrow> Inl not_initialized
      | Some d \<Rightarrow>
          (case ObjectId project_id of
             Inl e \<Rightarrow> Inl e
           | Inr obj_id \<Rightarrow>
               (case find_one (projects d) (py ''_id'') (PObjectId obj_id) of
                  Some project \<Rightarrow>
                    if truthy (PDict project) then get_project_found project else Inr (PDict [])
                | None \<Rightarrow> Inr (PDict []))))"

text \<open>
  \<open>MongoDB.store_project_plan(project_id, plan)\<close>, the same text in both copies:
  \<^verbatim>\<open>
    plan["updated_at"] = datetime.utcnow()
    if "created_at" not in plan:
        plan["created_at"] = plan["updated_at"]
    result = await cls.db.project_plans.update_one(
        {"project_id": project_id}, {"$set": plan}, upsert=True)
    return True
  \<close>
  \<open>now\<close> is the reading of the clock. The function returns \<open>True\<close> and has written the
  two timestamps into the caller's \<open>plan\<close>: the model returns the plan as it stands then.
  A \<open>plan\<close> that is not a dict fails on the first assignment.
\<close>

definition stamped :: "document \<Rightarrow> nat \<Rightarrow> document" where
  "stamped plan now =
     (let plan1 = AList.update (py ''updated_at'') (PDatetime now) plan in
      if map_of plan1 (py ''created_at'') = None
      then AList.update (py ''created_at'') (get_default plan1 (py ''updated_at'') PNone) plan1
      else plan1)"

definition store_project_plan ::
  "database option \<Rightarrow> pystr \<Rightarrow> pyval \<Rightarrow> nat \<Rightarrow> (exn + document) \<times> database option" where
  "store_project_plan db project_id plan now =
     (case db of
        None \<Rightarrow> (Inl not_initialized, db)
      | Some d \<Rightarrow>
          (case plan of
             PDict p \<Rightarrow>
               (Inr (stamped p now),
                Some (d\<lparr>project_plans :=
                  update_one_upsert (project_plans d) (py ''project_id'') (PStr project_id)
                    (stamped p now)\<rparr>))
           | _ \<Rightarrow> (Inl (TypeError (py ''object does not support item assignment'')), db)))"









text \<open>What the store holds for a project id: the plan row, the project document.\<close>

definition plan_row :: "database option \<Rightarrow> pystr \<Rightarrow> document option" where
  "plan_row db project_id =
     (case db of None \<Rightarrow> None
      | Some d \<Rightarrow> find_one (project_plans d) (py ''project_id'') (PStr project_id))"

definition project_doc :: "database option \<Rightarrow> pystr \<Rightarrow> document option" where
  "project_doc db obj_id =
     (case db of None \<Rightarrow> None
      | Some d \<Rightarrow> find_one (projects d) (py ''_id'') (PObjectId obj_id))"

definition stored_plan_field :: "database option \<Rightarrow> pystr \<Rightarrow> pystr \<Rightarrow> pyval option" where
  "stored_plan_field db project_id field =
     (case plan_row db project_id of None \<Rightarrow> None | Some row \<Rightarrow> map_of row field)"

subsection \<open>Facts about literals, dictionaries and the store\<close>

lemma py_simps: "py [] = []" "py (c # cs) = of_char c # py cs"
  by (simp_all add: py_def)

lemma py_inj [simp]: "py a = py b \<longleftrightarrow> a = b"
  by (simp add: py_def inj_map_eq_map inj_on_def)

lemma find_one_None_iff: "find_one coll f v = None \<longleftrightarrow> (\<forall>d \<in> set coll. map_of d f \<noteq> Some v)"
  by (auto simp: find_one_def find_None_iff matches_def)

lemma find_one_Some_matches: "find_one coll f v = Some d \<Longrightarrow> matches f v d \<and> d \<in> set coll"
  by (auto simp: find_one_def find_Some_iff)

lemma find_one_replace_first:
  "find_one coll f v = Some d0 \<Longrightarrow> matches f v (g d0) \<Longrightarrow>
   find_one (replace_first (matches f v) g coll) f v = Some (g d0)"
  by (induction coll) (auto simp: find_one_def split: if_splits)

lemma find_one_append_new:
  "find_one coll f v = None \<Longrightarrow> matches f v x \<Longrightarrow> find_one (coll @ [x]) f v = Some x"
  by (induction coll) (auto simp: find_one_def split: if_splits)

lemma map_of_fold_update:
  "distinct (map fst xs) \<Longrightarrow>
   map_of (fold (\<lambda>(k, v). AList.update k v) xs d) = map_of d ++ map_of xs"
proof (induction xs arbitrary: d)
  case Nil
  then show ?case by simp
next
  case (Cons x xs)
  obtain k v where x: "x = (k, v)" by (cases x)
  from Cons.prems x have notin: "k \<notin> fst ` set xs" and dist: "distinct (map fst xs)" by auto
  have none: "map_of xs k = None" using notin by (simp add: map_of_eq_None_iff)
  have "map_of (fold (\<lambda>(k, v). AList.update k v) (x # xs) d) =
        map_of (AList.update k v d) ++ map_of xs"
    using Cons.IH [OF dist] x by simp
  also have "\<dots> = (map_of d)(k \<mapsto> v) ++ map_of xs"
    by (simp only: update_conv')
  also have "\<dots> = map_of d ++ map_of (x # xs)"
    unfolding x using none
    by (auto simp: map_add_def fun_eq_iff split: option.splits)
  finally show ?case .
qed

lemma map_of_items: "map_of (items d) = map_of d"
proof
  fix k
  show "map_of (items d) k = map_of d k"
  proof (cases "k \<in> fst ` set d")
    case True
    then obtain v where "map_of d k = Some v" by (metis map_of_eq_None_iff not_Some_eq)
    with True show ?thesis
      by (simp add: items_def map_of_map_restrict get_default_def o_def restrict_map_def)
  next
    case False
    then have "map_of d k = None" by (simp add: map_of_eq_None_iff)
    with False show ?thesis
      by (simp add: items_def map_of_map_restrict restrict_map_def)
  qed
qed

lemma distinct_items: "distinct (map fst (items d))"
  by (simp add: items_def o_def)

lemma map_of_dict_update: "map_of (dict_update d other) = map_of d ++ map_of other"
  by (simp add: dict_update_def map_of_fold_update distinct_items map_of_items)

lemma find_one_Nil [simp]: "find_one [] f v = None"
  by (simp add: find_one_def)

lemma matches_dict_update:
  "matches f v d \<or> map_of s f = Some v \<Longrightarrow> map_of s f = None \<or> map_of s f = Some v \<Longrightarrow>
   matches f v (dict_update d s)"
  by (auto simp: matches_def map_of_dict_update map_add_def split: option.splits)

lemma map_of_stamped:
  "map_of (stamped p now) (py ''updated_at'') = Some (PDatetime now)"
  "map_of (stamped p now) (py ''created_at'') =
     Some (case map_of p (py ''created_at'') of Some c \<Rightarrow> c | None \<Rightarrow> PDatetime now)"
  "k \<noteq> py ''updated_at'' \<Longrightarrow> k \<noteq> py ''created_at'' \<Longrightarrow> map_of (stamped p now) k = map_of p k"
  by (auto simp: stamped_def Let_def update_conv' get_default_def split: option.splits)

lemma plan_row_after_store:
  assumes "map_of plan (py ''project_id'') = None \<or>
           map_of plan (py ''project_id'') = Some (PStr project_id)"
  shows "\<exists>old. plan_row (snd (store_project_plan (Some d) project_id (PDict plan) now)) project_id =
           Some (dict_update old (stamped plan now))"
proof -
  let ?f = "py ''project_id''" and ?v = "PStr project_id" and ?sp = "stamped plan now"
  have sp: "map_of ?sp ?f = None \<or> map_of ?sp ?f = Some ?v"
    using assms by (simp add: map_of_stamped)
  show ?thesis
  proof (cases "find_one (project_plans d) ?f ?v")
    case None
    have "matches ?f ?v (dict_update [(?f, ?v)] ?sp)"
      using sp by (intro matches_dict_update) (auto simp: matches_def)
    with None show ?thesis
      by (auto simp: store_project_plan_def plan_row_def update_one_upsert_def
          find_one_append_new)
  next
    case (Some d0)
    then have "matches ?f ?v d0" by (simp add: find_one_Some_matches)
    then have "matches ?f ?v (dict_update d0 ?sp)"
      using sp by (intro matches_dict_update) auto
    with Some show ?thesis
      by (auto simp: store_project_plan_def plan_row_def update_one_upsert_def
          find_one_replace_first)
  qed
qed

lemma ObjectId_valid [simp]: "is_valid s \<Longrightarrow> ObjectId s = Inr (map lower s)"
  by (simp add: ObjectId_def)

lemma ObjectId_invalid [simp]: "\<not> is_valid s \<Longrightarrow> ObjectId s = Inl (InvalidId s)"
  by (simp add: ObjectId_def)

lemma get_project_found_not_None: "get_project_found p \<noteq> Inr PNone"
  by (simp add: get_project_found_def split: sum.splits)

















section \<open>The JSON decoder (json.loads)\<close>

text \<open>
  \<open>json.loads\<close> of the standard library, as the planner uses it (no options): the text is
  cut into tokens, with blanks, tabs, line feeds and carriage returns allowed between
  them, and the tokens are read by a stack machine. It accepts what the library accepts,
  \<open>NaN\<close>, \<open>Infinity\<close> and \<open>-Infinity\<close> included; a number with a fraction or an exponent is
  a float, any other an int; a key given twice keeps its last value. Anything else is a
  \<open>JSONDecodeError\<close>. The decoder's limit on nesting depth is not modelled.
\<close>

datatype token = TLBrace | TRBrace | TLBracket | TRBracket | TColon | TComma | TValue pyval

definition isdigit :: "nat \<Rightarrow> bool" where
  "isdigit c \<longleftrightarrow> 48 \<le> c \<and> c \<le> 57"

definition hexval :: "nat \<Rightarrow> nat" where
  "hexval c = (if c \<le> 57 then c - 48 else if c \<le> 70 then c - 55 else c - 87)"

text \<open>The four hexadecimal digits of a \<open>\uXXXX\<close> escape.\<close>

definition hex4 :: "pystr \<Rightarrow> nat option" where
  "hex4 s = (if length s \<ge> 4 \<and> list_all ishex (take 4 s)
             then Some (foldl (\<lambda>a c. 16 * a + hexval c) 0 (take 4 s)) else None)"

definition escape :: "nat \<Rightarrow> nat option" where
  "escape c = (if c = 34 then Some 34 else if c = 92 then Some 92 else if c = 47 then Some 47
               else if c = 98 then Some 8 else if c = 102 then Some 12 else if c = 110 then Some 10
               else if c = 114 then Some 13 else if c = 116 then Some 9 else None)"

text \<open>
  The second half of a surrogate pair: when \<open>hi\<close> is a high surrogate and the text goes
  on with \<open>\uXXXX\<close> for a low surrogate, the two make one code point and six more
  characters are used up.
\<close>

definition low_surrogate :: "nat \<Rightarrow> pystr \<Rightarrow> nat option" where
  "low_surrogate hi s =
     (if 55296 \<le> hi \<and> hi \<le> 56319 \<and> take 2 s = [92, 117] then
        (case hex4 (drop 2 s) of
           Some lo \<Rightarrow> if 56320 \<le> lo \<and> lo \<le> 57343
                      then Some (65536 + (hi - 55296) * 1024 + (lo - 56320)) else None
         | None \<Rightarrow> None)
      else None)"

text \<open>
  A string, from after its opening quote: the decoded characters (\<open>acc\<close>, latest first)
  and the text after the closing quote. A control character, a bad escape or a missing
  closing quote is an error.
\<close>

fun scan_string :: "pystr \<Rightarrow> pystr \<Rightarrow> (pystr \<times> pystr) option" where
  "scan_string acc [] = None"
| "scan_string acc (c # cs) =
     (if c = 34 then Some (rev acc, cs)
      else if c = 92 then
        (case cs of
           [] \<Rightarrow> None
         | e # rest \<Rightarrow>
             if e = 117 then
               (case hex4 rest of
                  None \<Rightarrow> None
                | Some hi \<Rightarrow>
                    (case low_surrogate hi (drop 4 rest) of
                       Some cp \<Rightarrow> scan_string (cp # acc) (drop 10 rest)
                     | None \<Rightarrow> scan_string (hi # acc) (drop 4 rest)))
             else
               (case escape e of
                  None \<Rightarrow> None
                | Some ch \<Rightarrow> scan_string (ch # acc) rest))
      else if c < 32 then None
      else scan_string (c # acc) cs)"

definition digits_value :: "pystr \<Rightarrow> int" where
  "digits_value ds = foldl (\<lambda>a c. 10 * a + int (c - 48)) 0 ds"

text \<open>
  A number: \<open>-?(0|[1-9][0-9]*)\<close>, then \<open>.\<close> and digits if there is at least one digit,
  then \<open>e\<close> or \<open>E\<close>, a sign and digits if there is at least one digit. The value and the
  text after it.
\<close>

definition scan_fraction :: "pystr \<Rightarrow> pystr \<times> pystr" where
  "scan_fraction s =
     (case s of
        p # d # r \<Rightarrow> if p = 46 \<and> isdigit d then (p # d # takeWhile isdigit r, dropWhile isdigit r)
                     else ([], s)
      | _ \<Rightarrow> ([], s))"

definition scan_exponent :: "pystr \<Rightarrow> pystr \<times> pystr" where
  "scan_exponent s =
     (case s of
        e # r \<Rightarrow>
          if e = 101 \<or> e = 69 then
            (let sign = (case r of c # r' \<Rightarrow> if c = 43 \<or> c = 45 then [c] else [] | [] \<Rightarrow> []);
                 r1 = drop (length sign) r
             in case r1 of
                  d # r2 \<Rightarrow> if isdigit d then (e # sign @ takeWhile isdigit r1, dropWhile isdigit r1)
                             else ([], s)
                | [] \<Rightarrow> ([], s))
          else ([], s)
      | [] \<Rightarrow> ([], s))"

definition scan_number :: "pystr \<Rightarrow> (pyval \<times> pystr) option" where
  "scan_number s =
     (let minus = (case s of c # r \<Rightarrow> if c = 45 then [c] else [] | [] \<Rightarrow> []);
          s1 = drop (length minus) s
      in case s1 of
           [] \<Rightarrow> None
         | c # cs \<Rightarrow>
             if isdigit c then
               (let integer = (if c = 48 then [c] else c # takeWhile isdigit cs);
                    s2 = drop (length integer) s1;
                    (frac, s3) = scan_fraction s2;
                    (exp, s4) = scan_exponent s3
                in if frac = [] \<and> exp = []
                   then Some (PInt ((if minus = [] then 1 else -1) * digits_value integer), s4)
                   else Some (PFloat (minus @ integer @ frac @ exp), s4))
             else None)"

text \<open>A token that is not a string or a number, and the text after it.\<close>

definition scan_word :: "pystr \<Rightarrow> (token \<times> pystr) option" where
  "scan_word s =
     (if take 1 s = py ''{'' then Some (TLBrace, drop 1 s)
      else if take 1 s = py ''}'' then Some (TRBrace, drop 1 s)
      else if take 1 s = py ''['' then Some (TLBracket, drop 1 s)
      else if take 1 s = py '']'' then Some (TRBracket, drop 1 s)
      else if take 1 s = py '':'' then Some (TColon, drop 1 s)
      else if take 1 s = py '','' then Some (TComma, drop 1 s)
      else if take 4 s = py ''null'' then Some (TValue PNone, drop 4 s)
      else if take 4 s = py ''true'' then Some (TValue (PBool True), drop 4 s)
      else if take 5 s = py ''false'' then Some (TValue (PBool False), drop 5 s)
      else if take 3 s = py ''NaN'' then Some (TValue (PFloat (py ''NaN'')), drop 3 s)
      else if take 8 s = py ''Infinity'' then Some (TValue (PFloat (py ''Infinity'')), drop 8 s)
      else if take 9 s = py ''-Infinity'' then Some (TValue (PFloat (py ''-Infinity'')), drop 9 s)
      else None)"

definition scan_token :: "pystr \<Rightarrow> (token \<times> pystr) option" where
  "scan_token s =
     (case s of
        [] \<Rightarrow> None
      | c # cs \<Rightarrow>
          if c = 34 then map_option (\<lambda>(v, rest). (TValue (PStr v), rest)) (scan_string [] cs)
          else (case scan_word s of
                  Some r \<Rightarrow> Some r
                | None \<Rightarrow> map_option (\<lambda>(v, rest). (TValue v, rest)) (scan_number s)))"

definition iswhitespace :: "nat \<Rightarrow> bool" where
  "iswhitespace c \<longleftrightarrow> c = 32 \<or> c = 9 \<or> c = 10 \<or> c = 13"

lemma scan_string_shorter: "scan_string acc s = Some (v, rest) \<Longrightarrow> length rest < length s"
proof (induction acc s rule: scan_string.induct)
  case (1 acc)
  then show ?case by simp
next
  case (2 acc c cs)
  show ?case
  proof (cases "c = 34")
    case True
    with 2 show ?thesis by simp
  next
    case False
    show ?thesis
    proof (cases "c = 92")
      case c: True
      show ?thesis
      proof (cases cs)
        case Nil
        with 2 c False show ?thesis by simp
      next
        case (Cons e rest')
        show ?thesis
        proof (cases "e = 117")
          case u: True
          then obtain hi where hi: "hex4 rest' = Some hi"
            using "2.prems" c False Cons by (auto split: option.splits)
          show ?thesis
          proof (cases "low_surrogate hi (drop 4 rest')")
            case None
            then have "scan_string (hi # acc) (drop 4 rest') = Some (v, rest)"
              using "2.prems" c False Cons u hi by simp
            from "2.IH"(1) [OF False c Cons u hi None this] show ?thesis
              using Cons by simp
          next
            case (Some cp)
            then have "scan_string (cp # acc) (drop 10 rest') = Some (v, rest)"
              using "2.prems" c False Cons u hi by simp
            from "2.IH"(2) [OF False c Cons u hi Some this] show ?thesis
              using Cons by simp
          qed
        next
          case nu: False
          then obtain ch where ch: "escape e = Some ch"
            using "2.prems" c False Cons by (auto split: option.splits)
          then have "scan_string (ch # acc) rest' = Some (v, rest)"
            using "2.prems" c False Cons nu by simp
          from "2.IH"(3) [OF False c Cons nu ch this] show ?thesis
            using Cons by simp
        qed
      qed
    next
      case nb: False
      with 2 False show ?thesis by (auto split: if_splits)
    qed
  qed
qed

lemma scan_fraction_le: "scan_fraction s = (f, r) \<Longrightarrow> length r \<le> length s"
  by (auto simp: scan_fraction_def intro: le_SucI length_dropWhile_le
      split: list.splits if_splits)

lemma scan_exponent_le: "scan_exponent s = (e, r) \<Longrightarrow> length r \<le> length s"
  by (auto simp: scan_exponent_def Let_def intro: le_SucI length_dropWhile_le
      order_trans [OF length_dropWhile_le] split: list.splits if_splits)

lemma scan_number_shorter: "scan_number s = Some (v, rest) \<Longrightarrow> length rest < length s"
proof -
  assume a: "scan_number s = Some (v, rest)"
  define minus where "minus = (case s of c # r \<Rightarrow> if c = 45 then [c] else [] | [] \<Rightarrow> [])"
  from a obtain c cs where s1: "drop (length minus) s = c # cs" and d: "isdigit c"
    by (auto simp: scan_number_def Let_def minus_def split: list.splits if_splits)
  define integer where "integer = (if c = 48 then [c] else c # takeWhile isdigit cs)"
  define s2 where "s2 = drop (length integer) (c # cs)"
  obtain frac s3 where f: "scan_fraction s2 = (frac, s3)" by (cases "scan_fraction s2")
  obtain ex s4 where e: "scan_exponent s3 = (ex, s4)" by (cases "scan_exponent s3")
  have "scan_number s =
          (if frac = [] \<and> ex = []
           then Some (PInt ((if minus = [] then 1 else -1) * digits_value integer), s4)
           else Some (PFloat (minus @ integer @ frac @ ex), s4))"
    unfolding scan_number_def Let_def minus_def [symmetric] s1
    using d f e by (simp add: integer_def [symmetric] s2_def [symmetric])
  with a have "rest = s4" by (auto split: if_splits)
  moreover have "length s4 \<le> length s2"
    using scan_fraction_le [OF f] scan_exponent_le [OF e] by simp
  moreover have "length s2 < length (c # cs)"
    by (simp add: s2_def integer_def)
  moreover have "length (c # cs) \<le> length s"
    using arg_cong [OF s1, of length] by simp
  ultimately show ?thesis by simp
qed

lemma scan_word_shorter: "scan_word s = Some (t, rest) \<Longrightarrow> length rest < length s"
  by (cases s) (auto simp: scan_word_def py_simps split: if_splits)

lemma scan_token_shorter: "scan_token s = Some (t, rest) \<Longrightarrow> length rest < length s"
  by (auto simp: scan_token_def split: list.splits if_splits option.splits
      dest: scan_string_shorter scan_word_shorter scan_number_shorter)

function tokens :: "pystr \<Rightarrow> token list option" where
  "tokens s =
     (case dropWhile iswhitespace s of
        [] \<Rightarrow> Some []
      | c # cs \<Rightarrow>
          (case scan_token (c # cs) of
             None \<Rightarrow> None
           | Some (t, rest) \<Rightarrow> map_option ((#) t) (tokens rest)))"
  by pat_completeness auto
termination
proof (relation "measure length")
  show "wf (measure length)" by simp
next
  fix s :: pystr and c cs x t rest
  assume w: "dropWhile iswhitespace s = c # cs"
    and "scan_token (c # cs) = Some x" and "(t, rest) = x"
  then have "length rest < length (c # cs)"
    by (auto dest: scan_token_shorter)
  also have "\<dots> \<le> length s"
    using length_dropWhile_le [of iswhitespace s] by (simp add: w)
  finally show "(rest, s) \<in> measure length" by simp
qed

declare tokens.simps [simp del]

subsection \<open>Reading the tokens\<close>

text \<open>
  The stack holds what is open: an array with the elements read so far (latest first),
  an object with its items, an object with its items and the key whose value is awaited.
  \<open>expect\<close> says what may come next.
\<close>

datatype frame = FArray "pyval list" | FObject document | FKey document pystr

datatype expect = Value | ValueOrClose | KeyOrClose | Key | Colon | CommaOrClose

datatype pstate = Expect expect "frame list" | Done pyval

text \<open>A value is complete: it goes into what is open, or is the result.\<close>

fun reduce :: "pyval \<Rightarrow> frame list \<Rightarrow> pstate option" where
  "reduce v [] = Some (Done v)"
| "reduce v (FArray xs # st) = Some (Expect CommaOrClose (FArray (v # xs) # st))"
| "reduce v (FKey kvs k # st) = Some (Expect CommaOrClose (FObject (AList.update k v kvs) # st))"
| "reduce v (FObject kvs # st) = None"

fun step :: "token \<Rightarrow> expect \<Rightarrow> frame list \<Rightarrow> pstate option" where
  "step (TValue v) Value st = reduce v st"
| "step (TValue v) ValueOrClose st = reduce v st"
| "step TLBracket Value st = Some (Expect ValueOrClose (FArray [] # st))"
| "step TLBracket ValueOrClose st = Some (Expect ValueOrClose (FArray [] # st))"
| "step TLBrace Value st = Some (Expect KeyOrClose (FObject [] # st))"
| "step TLBrace ValueOrClose st = Some (Expect KeyOrClose (FObject [] # st))"
| "step TRBracket ValueOrClose (FArray xs # st) = reduce (PList (rev xs)) st"
| "step (TValue (PStr k)) KeyOrClose (FObject kvs # st) = Some (Expect Colon (FKey kvs k # st))"
| "step TRBrace KeyOrClose (FObject kvs # st) = reduce (PDict kvs) st"
| "step (TValue (PStr k)) Key (FObject kvs # st) = Some (Expect Colon (FKey kvs k # st))"
| "step TColon Colon st = Some (Expect Value st)"
| "step TComma CommaOrClose (FArray xs # st) = Some (Expect Value (FArray xs # st))"
| "step TRBracket CommaOrClose (FArray xs # st) = reduce (PList (rev xs)) st"
| "step TComma CommaOrClose (FObject kvs # st) = Some (Expect Key (FObject kvs # st))"
| "step TRBrace CommaOrClose (FObject kvs # st) = reduce (PDict kvs) st"
| "step t e st = None"

fun run :: "token list \<Rightarrow> pstate \<Rightarrow> pyval option" where
  "run [] (Done v) = Some v"
| "run [] (Expect e st) = None"
| "run (t # ts) (Done v) = None"
| "run (t # ts) (Expect e st) = (case step t e st of None \<Rightarrow> None | Some s \<Rightarrow> run ts s)"

definition json_loads :: "pystr \<Rightarrow> exn + pyval" where
  "json_loads s =
     (case tokens s of
        None \<Rightarrow> Inl (JSONDecodeError s)
      | Some ts \<Rightarrow>
          (case run ts (Expect Value []) of
             None \<Rightarrow> Inl (JSONDecodeError s)
           | Some v \<Rightarrow> Inr v))"

section \<open>The planner (core/planner.py)\<close>

text \<open>
  The LLM chain is the provider: given what the prompt is filled with, \<open>llm prompt i\<close> is
  the outcome of call number \<open>i\<close>. A failed operation of the planner returns the dict
  \<open>{"error": str(e), "message": message}\<close>.
\<close>

definition failure :: "exn \<Rightarrow> pystr \<Rightarrow> pyval" where
  "failure e message = PDict [(py ''error'', PStr (str_exn e)), (py ''message'', PStr message)]"

text \<open>\<open>sep.join(parts)\<close> and \<open>len(v)\<close>.\<close>

fun join :: "pystr \<Rightarrow> pystr list \<Rightarrow> pystr" where
  "join sep [] = []"
| "join sep [x] = x"
| "join sep (x # y # ys) = x @ sep @ join sep (y # ys)"

fun len :: "pyval \<Rightarrow> exn + nat" where
  "len (PList xs) = Inr (length xs)"
| "len (PStr s) = Inr (length s)"
| "len (PDict kvs) = Inr (length (items kvs))"
| "len v = Inl (TypeError (py ''object has no len()''))"

fun strings :: "pyval list \<Rightarrow> exn + pystr list" where
  "strings [] = Inr []"
| "strings (PStr s # vs) = (case strings vs of Inl e \<Rightarrow> Inl e | Inr ss \<Rightarrow> Inr (s # ss))"
| "strings (v # vs) = Inl (TypeError (py ''sequence item: expected str instance''))"

text \<open>
  Lines 47-55: the context the prompt is filled with, from the project details and the
  defaults. \<open>len\<close> of the team and \<open>", ".join\<close> of the tags may raise.
\<close>

definition build_context :: "document \<Rightarrow> exn + document" where
  "build_context project_details =
     (case len (get_default project_details (py ''team'') (PList [])) of
        Inl e \<Rightarrow> Inl e
      | Inr team_size \<Rightarrow>
          (case iterate (get_default project_details (py ''tags'') (PList [])) of
             Inl e \<Rightarrow> Inl e
           | Inr tags \<Rightarrow>
               (case strings tags of
                  Inl e \<Rightarrow> Inl e
                | Inr ss \<Rightarrow>
                    Inr [(py ''title'', get_default project_details (py ''title'') (PStr (py ''Untitled Project''))),
                         (py ''description'', get_default project_details (py ''description'') (PStr [])),
                         (py ''status'', get_default project_details (py ''status'') (PStr (py ''planning''))),
                         (py ''team_size'', PInt (int team_size)),
                         (py ''progress'', get_default project_details (py ''progress'') (PInt 0)),
                         (py ''tags'', PStr (join (py '', '') ss)),
                         (py ''deadline'', get_default project_details (py ''deadline'')
                            (PStr (py ''Not specified'')))])))"

text \<open>
  Lines 126-144: the response is checked, repaired and parsed. An empty response is a
  \<open>ValueError\<close> of its own; a \<open>JSONDecodeError\<close> becomes
  \<open>ValueError(f"Invalid JSON response from LLM: {e}")\<close>.
\<close>

definition invalid_response_format :: exn where
  "invalid_response_format =
     ValueError (py ''Invalid response format. Expected string, got <class '' @ [39] @
                 py ''str'' @ [39] @ py ''>'')"

definition invalid_json :: "exn \<Rightarrow> exn" where
  "invalid_json e = ValueError (py ''Invalid JSON response from LLM: '' @ str_exn e)"

definition parse_response :: "pystr \<Rightarrow> exn + pyval" where
  "parse_response response =
     (if \<not> truthy (PStr response) then Inl invalid_response_format
      else case json_loads (cleaned_response LBRACE RBRACE response) of
             Inl e \<Rightarrow> Inl (invalid_json e)
           | Inr plan_json \<Rightarrow> Inr plan_json)"

text \<open>
  Lines 146-156: the four required fields, looked for with \<open>field not in plan_json\<close>.
\<close>

definition required_fields :: "pystr list" where
  "required_fields = [py ''project_summary'', py ''key_features_deliverables'',
                      py ''major_milestones'', py ''high_level_tasks'']"

fun missing_fields :: "pyval \<Rightarrow> pystr list \<Rightarrow> exn + pystr list" where
  "missing_fields plan_json [] = Inr []"
| "missing_fields plan_json (field # rest) =
     (case contains plan_json field of
        Inl e \<Rightarrow> Inl e
      | Inr present \<Rightarrow>
          (case missing_fields plan_json rest of
             Inl e \<Rightarrow> Inl e
           | Inr ms \<Rightarrow> Inr (if present then ms else field # ms)))"

definition missing_required :: "pystr list \<Rightarrow> exn" where
  "missing_required missing =
     ValueError (py ''Missing required fields in plan: '' @ join (py '', '') missing)"

definition validate_plan :: "pyval \<Rightarrow> exn + unit" where
  "validate_plan plan_json =
     (case missing_fields plan_json required_fields of
        Inl e \<Rightarrow> Inl e
      | Inr missing \<Rightarrow> if missing \<noteq> [] then Inl (missing_required missing) else Inr ())"

text \<open>
  \<open>PlannerAgent.generate_project_plan\<close> (lines 43-177). \<open>generation\<close> is the inner
  \<open>try\<close> block, from the call of the provider to the return of the stored plan; its
  handler and the outer one turn every exception into a \<open>failure\<close>. The result comes
  with the store as the call leaves it.
\<close>

definition generation ::
  "database option \<Rightarrow> document \<Rightarrow> document \<Rightarrow> (pyval \<Rightarrow> nat \<Rightarrow> outcome) \<Rightarrow> nat \<Rightarrow>
   (exn + pyval) \<times> database option" where
  "generation db project_details context llm now =
     (case fst (call_with_retry (llm (PDict context))) of
        Inl e \<Rightarrow> (Inl e, db)
      | Inr response \<Rightarrow>
          (case parse_response response of
             Inl e \<Rightarrow> (Inl e, db)
           | Inr plan_json \<Rightarrow>
               (case validate_plan plan_json of
                  Inl e \<Rightarrow> (Inl e, db)
                | Inr _ \<Rightarrow>
                    (case getitem project_details (py ''_id'') of
                       Inl e \<Rightarrow> (Inl e, db)
                     | Inr v \<Rightarrow>
                         (case store_project_plan db (str_value v) plan_json now of
                            (Inl e, db') \<Rightarrow> (Inl e, db')
                          | (Inr stored, db') \<Rightarrow> (Inr (PDict stored), db'))))))"

definition generate_project_plan ::
  "database option \<Rightarrow> pyval \<Rightarrow> (pyval \<Rightarrow> nat \<Rightarrow> outcome) \<Rightarrow> nat \<Rightarrow>
   (exn + pyval) \<times> database option" where
  "generate_project_plan db project_details llm now =
     (case project_details of
        PDict details \<Rightarrow>
          (case build_context details of
             Inl e \<Rightarrow> (Inr (failure e (py ''Failed to set up project plan generation.'')), db)
           | Inr context \<Rightarrow>
               (case generation db details context llm now of
                  (Inl e, db') \<Rightarrow> (Inr (failure e (py ''Failed to generate project plan.'')), db')
                | (Inr plan, db') \<Rightarrow> (Inr plan, db')))
      | _ \<Rightarrow>
          (Inr (failure (AttributeError (py ''object has no attribute get''))
                  (py ''Failed to set up project plan generation.'')), db))"

text \<open>
  \<open>json.dumps(tasks)\<close> raises \<open>TypeError\<close> on a value JSON has no form for: here a
  \<open>datetime\<close> or an \<open>ObjectId\<close>, at any depth.
\<close>

fun serializable :: "pyval \<Rightarrow> bool" where
  "serializable (PDatetime t) = False"
| "serializable (PObjectId oid) = False"
| "serializable (PList xs) = list_all serializable xs"
| "serializable (PDict kvs) = list_all serializable (map snd kvs)"
| "serializable v = True"

text \<open>
  \<open>PlannerAgent.refine_project_tasks\<close> (lines 179-285). The clock is read up to three
  times: \<open>now0\<close> and \<open>now1\<close> when a plan is made up because none is stored, \<open>now2\<close> when
  the refined tasks are written.
\<close>

definition invalid_refined_json :: "exn \<Rightarrow> exn" where
  "invalid_refined_json e = ValueError (py ''Invalid JSON response for refined tasks: '' @ str_exn e)"

definition refinement ::
  "database option \<Rightarrow> pystr \<Rightarrow> pyval \<Rightarrow> (pyval \<Rightarrow> nat \<Rightarrow> outcome) \<Rightarrow> nat \<Rightarrow> nat \<Rightarrow> nat \<Rightarrow>
   (exn + pyval) \<times> database option" where
  "refinement db project_id tasks llm now0 now1 now2 =
     (case db of
        None \<Rightarrow> (Inl (AttributeError (py ''NoneType object has no attribute project_plans'')), db)
      | Some d \<Rightarrow>
          (let found = find_one (project_plans d) (py ''project_id'') (PStr project_id);
               project_plan =
                 (case found of
                    Some p \<Rightarrow> if truthy (PDict p) then p
                              else [(py ''project_id'', PStr project_id),
                                    (py ''high_level_tasks'', tasks),
                                    (py ''created_at'', PDatetime now0),
                                    (py ''updated_at'', PDatetime now1)]
                  | None \<Rightarrow> [(py ''project_id'', PStr project_id),
                             (py ''high_level_tasks'', tasks),
                             (py ''created_at'', PDatetime now0),
                             (py ''updated_at'', PDatetime now1)])
           in if \<not> serializable tasks
              then (Inl (TypeError (py ''Object is not JSON serializable'')), db)
              else case fst (call_with_retry (llm tasks)) of
                Inl e \<Rightarrow> (Inl e, db)
              | Inr response \<Rightarrow>
                  (case json_loads (cleaned_response LBRACKET RBRACKET response) of
                     Inl e \<Rightarrow> (Inl (invalid_refined_json e), db)
                   | Inr refined_tasks \<Rightarrow>
                       (Inr (PDict [(py ''project_id'', PStr project_id),
                                    (py ''refined_tasks'', refined_tasks),
                                    (py ''original_tasks'', tasks)]),
                        Some (d\<lparr>project_plans :=
                          update_one_upsert (project_plans d) (py ''project_id'') (PStr project_id)
                            (AList.update (py ''updated_at'') (PDatetime now2)
                               (AList.update (py ''high_level_tasks'') refined_tasks
                                  project_plan))\<rparr>)))))"

definition refine_project_tasks ::
  "database option \<Rightarrow> pystr \<Rightarrow> pyval \<Rightarrow> (pyval \<Rightarrow> nat \<Rightarrow> outcome) \<Rightarrow> nat \<Rightarrow> nat \<Rightarrow> nat \<Rightarrow>
   (exn + pyval) \<times> database option" where
  "refine_project_tasks db project_id tasks llm now0 now1 now2 =
     (case refinement db project_id tasks llm now0 now1 now2 of
        (Inl e, db') \<Rightarrow> (Inr (failure e (py ''Failed to refine project tasks.'')), db')
      | (Inr result, db') \<Rightarrow> (Inr result, db'))"

subsection \<open>Facts about the planner\<close>

lemma missing_fields_dict:
  "missing_fields (PDict plan) fields0 = Inr (filter (\<lambda>f. map_of plan f = None) fields0)"
  by (induction fields0) auto

lemma validate_plan_dict:
  "validate_plan (PDict plan) =
     (let missing = filter (\<lambda>f. map_of plan f = None) required_fields
      in if missing = [] then Inr () else Inl (missing_required missing))"
  by (simp add: validate_plan_def missing_fields_dict Let_def)

lemma failure_fields:
  "contains (failure e message) (py ''error'') = Inr True"
  "contains (failure e message) (py ''message'') = Inr True"
  by (simp_all add: failure_def)

lemma generate_project_plan_returns:
  "\<exists>r. fst (generate_project_plan db project_details llm now) = Inr r"
  by (auto simp: generate_project_plan_def split: pyval.splits sum.splits prod.splits)

lemma refine_project_tasks_returns:
  "\<exists>r. fst (refine_project_tasks db project_id tasks llm now0 now1 now2) = Inr r"
  by (auto simp: refine_project_tasks_def split: sum.splits prod.splits)

lemma generation_cases:
  "fst (generation db details context llm now) =
     (case fst (call_with_retry (llm (PDict context))) of
        Inl e \<Rightarrow> Inl e
      | Inr response \<Rightarrow>
          (case parse_response response of
             Inl e \<Rightarrow> Inl e
           | Inr plan_json \<Rightarrow>
               (case validate_plan plan_json of
                  Inl e \<Rightarrow> Inl e
                | Inr u \<Rightarrow>
                    (case getitem details (py ''_id'') of
                       Inl e \<Rightarrow> Inl e
                     | Inr v \<Rightarrow>
                         (case fst (store_project_plan db (str_value v) plan_json now) of
                            Inl e \<Rightarrow> Inl e
                          | Inr stored \<Rightarrow> Inr (PDict stored))))))"
  by (simp add: generation_def split: sum.splits prod.splits)

lemma generate_project_plan_cases:
  "fst (generate_project_plan db (PDict details) llm now) =
     Inr (case build_context details of
            Inl e \<Rightarrow> failure e (py ''Failed to set up project plan generation.'')
          | Inr context \<Rightarrow>
              (case fst (generation db details context llm now) of
                 Inl e \<Rightarrow> failure e (py ''Failed to generate project plan.'')
               | Inr plan \<Rightarrow> plan))"
  by (simp add: generate_project_plan_def split: sum.splits prod.splits)

lemma refinement_cases:
  "fst (refinement db project_id tasks llm now0 now1 now2) =
     (case db of
        None \<Rightarrow> Inl (AttributeError (py ''NoneType object has no attribute project_plans''))
      | Some d \<Rightarrow>
          if \<not> serializable tasks then Inl (TypeError (py ''Object is not JSON serializable''))
          else case fst (call_with_retry (llm tasks)) of
                 Inl e \<Rightarrow> Inl e
               | Inr response \<Rightarrow>
                   (case json_loads (cleaned_response LBRACKET RBRACKET response) of
                      Inl e \<Rightarrow> Inl (invalid_refined_json e)
                    | Inr refined_tasks \<Rightarrow>
                        Inr (PDict [(py ''project_id'', PStr project_id),
                                    (py ''refined_tasks'', refined_tasks),
                                    (py ''original_tasks'', tasks)])))"
  by (simp add: refinement_def Let_def split: option.splits sum.splits)

lemma refine_project_tasks_cases:
  "fst (refine_project_tasks db project_id tasks llm now0 now1 now2) =
     Inr (case fst (refinement db project_id tasks llm now0 now1 now2) of
            Inl e \<Rightarrow> failure e (py ''Failed to refine project tasks.'')
          | Inr result \<Rightarrow> result)"
  by (simp add: refine_project_tasks_def split: sum.splits prod.splits)

lemma generate_project_plan_outcome:
  "\<exists>r. fst (generate_project_plan db project_details llm now) = Inr r \<and>
     ((\<exists>e message. r = PDict [(py ''error'', PStr (str_exn e)), (py ''message'', PStr message)] \<and>
          contains r (py ''error'') = Inr True \<and> contains r (py ''message'') = Inr True) \<or>
      (\<exists>details context response plan_json v stored.
          project_details = PDict details \<and>
          build_context details = Inr context \<and>
          fst (call_with_retry (llm (PDict context))) = Inr response \<and>
          parse_response response = Inr plan_json \<and>
          validate_plan plan_json = Inr () \<and>
          getitem details (py ''_id'') = Inr v \<and>
          fst (store_project_plan db (str_value v) plan_json now) = Inr stored \<and>
          r = PDict stored))"
proof (cases project_details)
  case (PDict details)
  show ?thesis
    unfolding PDict generate_project_plan_cases generation_cases
    by (auto simp: failure_def simp del: str_exn.simps split: sum.splits)
qed (auto simp: generate_project_plan_def failure_def simp del: str_exn.simps)

lemma refine_project_tasks_outcome:
  "\<exists>r. fst (refine_project_tasks db project_id tasks llm now0 now1 now2) = Inr r \<and>
     ((\<exists>e message. r = PDict [(py ''error'', PStr (str_exn e)), (py ''message'', PStr message)] \<and>
          contains r (py ''error'') = Inr True \<and> contains r (py ''message'') = Inr True) \<or>
      (\<exists>d response refined_tasks.
          db = Some d \<and> serializable tasks \<and>
          fst (call_with_retry (llm tasks)) = Inr response \<and>
          json_loads (cleaned_response LBRACKET RBRACKET response) = Inr refined_tasks \<and>
          r = PDict [(py ''project_id'', PStr project_id),
                     (py ''refined_tasks'', refined_tasks),
                     (py ''original_tasks'', tasks)]))"
  unfolding refine_project_tasks_cases refinement_cases
  by (auto simp: failure_def simp del: str_exn.simps split: sum.splits option.splits)




lemma call_with_retry_returns: "llm 0 = Returns r \<Longrightarrow> fst (call_with_retry llm) = Inr r"
  unfolding retrying_unroll by simp

lemma call_with_retry_raises:
  "llm 0 = Raises e \<Longrightarrow> \<not> retry_if_exception_type e \<Longrightarrow> fst (call_with_retry llm) = Inl e"
  unfolding retrying_unroll by simp


lemma json_loads_empty_list: "json_loads (py ''[]'') = Inr (PList [])"
  by code_simp


section \<open>The plan route (api/routes.py)\<close>

text \<open>
  What the client of a route gets: the returned value with status 200, or the status and
  detail of the \<open>HTTPException\<close> the handler raised.
\<close>

datatype response = Success pyval | HTTPError nat pyval

text \<open>
  The handlers of \<open>generate_plan_for_existing_project\<close> (lines 192-196):
  \<^verbatim>\<open>
    except HTTPException:
        raise
    except Exception as e:
        raise HTTPException(status_code=500, detail=str(e))
  \<close>
\<close>

definition raised :: "exn \<Rightarrow> response" where
  "raised e = (case e of HTTPException status detail \<Rightarrow> HTTPError status (PStr detail)
               | _ \<Rightarrow> HTTPError 500 (PStr (str_exn e)))"

text \<open>Lines 147-165: the context handed to the planner, from the project when one is found.\<close>

definition placeholder_context :: "pystr \<Rightarrow> document" where
  "placeholder_context project_id =
     [(py ''_id'', PStr project_id),
      (py ''title'', PStr (py ''Untitled Project'')),
      (py ''description'', PStr (py ''Project details to be determined'')),
      (py ''status'', PStr (py ''planning'')),
      (py ''tags'', PList []),
      (py ''team'', PList []),
      (py ''progress'', PInt 0)]"

definition project_context :: "pystr \<Rightarrow> document option \<Rightarrow> document" where
  "project_context project_id project =
     (case project of
        None \<Rightarrow> placeholder_context project_id
      | Some p \<Rightarrow>
          if truthy (PDict p) then
            [(py ''_id'', PStr project_id),
             (py ''title'', get_default p (py ''title'') (PStr (py ''Untitled Project''))),
             (py ''description'', get_default p (py ''description'')
                (PStr (py ''Project details not available''))),
             (py ''status'', get_default p (py ''status'') (PStr (py ''planning''))),
             (py ''tags'', get_default p (py ''tags'') (PList [])),
             (py ''team'', get_default p (py ''team'') (PList [])),
             (py ''deadline'', get_default p (py ''deadline'') PNone),
             (py ''resources'', get_default p (py ''resources'') (PList [])),
             (py ''progress'', get_default p (py ''progress'') (PInt 0))]
          else placeholder_context project_id)"

text \<open>Lines 178-183: the plan cut down to the four fields, each with its default.\<close>

definition minimum_plan :: "document \<Rightarrow> document" where
  "minimum_plan plan =
     [(py ''project_summary'', get_default plan (py ''project_summary'')
         (PStr (py ''Project summary to be determined''))),
      (py ''key_features_deliverables'', get_default plan (py ''key_features_deliverables'') (PList [])),
      (py ''major_milestones'', get_default plan (py ''major_milestones'') (PList [])),
      (py ''high_level_tasks'', get_default plan (py ''high_level_tasks'') (PList []))]"

text \<open>
  Lines 168-190, what the handler does with the planner's answer: an answer with an
  \<open>"error"\<close> key is a 500 with the answer's message, anything else that is a dict is cut
  down, stored and returned.
\<close>

definition respond ::
  "pystr \<Rightarrow> nat \<Rightarrow> (exn + pyval) \<times> database option \<Rightarrow> response \<times> database option" where
  "respond project_id now answer =
     (case answer of
        (Inl e, db) \<Rightarrow> (raised e, db)
      | (Inr plan, db) \<Rightarrow>
          (case contains plan (py ''error'') of
             Inl e \<Rightarrow> (raised e, db)
           | Inr True \<Rightarrow>
               (case plan of
                  PDict p \<Rightarrow>
                    (HTTPError 500 (get_default p (py ''message'') (PStr (py ''Failed to generate plan''))), db)
                | _ \<Rightarrow> (raised (AttributeError (py ''object has no attribute get'')), db))
           | Inr False \<Rightarrow>
               (case plan of
                  PDict p \<Rightarrow>
                    (case store_project_plan db project_id (PDict (minimum_plan p)) now of
                       (Inl e, db') \<Rightarrow> (raised e, db')
                     | (Inr stored, db') \<Rightarrow> (Success (PDict stored), db'))
                | _ \<Rightarrow> (HTTPError 500 (PStr (py ''Invalid plan format generated'')), db))))"

text \<open>
  \<open>generate_plan_for_existing_project\<close> (lines 118-196), the handler of
  \<open>GET /projects/{project_id}/plan\<close>. The planner is the handler's second parameter:
  \<open>planner db context\<close> is what its \<open>generate_project_plan(context)\<close> returns or raises on
  the store \<open>db\<close>, with the store as it leaves it.
\<close>

definition generate_plan_for_existing_project ::
  "database option \<Rightarrow> pystr \<Rightarrow> (database option \<Rightarrow> pyval \<Rightarrow> (exn + pyval) \<times> database option) \<Rightarrow>
   nat \<Rightarrow> response \<times> database option" where
  "generate_plan_for_existing_project db project_id planner now =
     (case db of
        None \<Rightarrow> (raised not_initialized, db)
      | Some d \<Rightarrow>
          (case ObjectId project_id of
             Inl e \<Rightarrow> (HTTPError 400 (PStr (py ''Invalid project ID format'')), db)
           | Inr obj_id \<Rightarrow>
               (let existing_plan = find_one (project_plans d) (py ''project_id'') (PStr project_id);
                    generated =
                      respond project_id now
                        (planner db (PDict (project_context project_id
                           (find_one (projects d) (py ''_id'') (PObjectId obj_id)))))
                in case existing_plan of
                     None \<Rightarrow> generated
                   | Some p \<Rightarrow>
                       if truthy (PDict p) then (Success (PDict (AList.delete (py ''_id'') p)), db)
                       else generated)))"

subsection \<open>Facts about the plan route\<close>

lemma store_project_plan_dict:
  "store_project_plan (Some d) project_id (PDict p) now =
     (Inr (stamped p now),
      Some (d\<lparr>project_plans :=
        update_one_upsert (project_plans d) (py ''project_id'') (PStr project_id) (stamped p now)\<rparr>))"
  "store_project_plan None project_id plan now = (Inl not_initialized, None)"
  by (simp_all add: store_project_plan_def)

lemma raised_status:
  "raised e = HTTPError status detail \<Longrightarrow> (\<forall>s t. e \<noteq> HTTPException s t) \<Longrightarrow> status = 500"
  by (cases e) (auto simp: raised_def)

lemma respond_not_404: "fst (respond project_id now (Inr r, db)) \<noteq> HTTPError 404 detail"
proof (cases "contains r (py ''error'')")
  case (Inl e)
  then have "\<exists>m. e = TypeError m" by (cases r) auto
  with Inl show ?thesis by (auto simp: respond_def raised_def)
next
  case (Inr present)
  show ?thesis
  proof (cases r)
    case (PDict p)
    show ?thesis
    proof (cases db)
      case None
      with PDict Inr show ?thesis
        by (cases present)
           (auto simp: respond_def raised_def store_project_plan_dict not_initialized_def)
    next
      case (Some d)
      with PDict Inr show ?thesis
        by (cases present) (auto simp: respond_def raised_def store_project_plan_dict)
    qed
  qed (use Inr in \<open>cases present; auto simp: respond_def raised_def\<close>)+
qed

lemma minimum_plan_fields:
  "map_of (minimum_plan plan) (py ''project_summary'') =
     Some (get_default plan (py ''project_summary'') (PStr (py ''Project summary to be determined'')))"
  "map_of (minimum_plan plan) (py ''key_features_deliverables'') =
     Some (get_default plan (py ''key_features_deliverables'') (PList []))"
  "map_of (minimum_plan plan) (py ''major_milestones'') =
     Some (get_default plan (py ''major_milestones'') (PList []))"
  "map_of (minimum_plan plan) (py ''high_level_tasks'') =
     Some (get_default plan (py ''high_level_tasks'') (PList []))"
  "map_of (minimum_plan plan) (py ''project_id'') = None"
  "map_of (minimum_plan plan) (py ''created_at'') = None"
  "map_of (minimum_plan plan) (py ''updated_at'') = None"
  by (simp_all add: minimum_plan_def)

lemma stamped_minimum_plan:
  "stamped (minimum_plan plan) now =
     minimum_plan plan @ [(py ''updated_at'', PDatetime now), (py ''created_at'', PDatetime now)]"
  by (simp add: stamped_def minimum_plan_def get_default_def Let_def)

lemma respond_plan:
  assumes "map_of plan (py ''error'') = None"
  shows "respond project_id now (Inr (PDict plan), Some d) =
           (Success (PDict (stamped (minimum_plan plan) now)),
            snd (store_project_plan (Some d) project_id (PDict (minimum_plan plan)) now))"
  using assms by (simp add: respond_def store_project_plan_dict)

lemma respond_error:
  assumes "map_of plan (py ''error'') \<noteq> None"
  shows "respond project_id now (Inr (PDict plan), db) =
           (HTTPError 500 (get_default plan (py ''message'') (PStr (py ''Failed to generate plan''))), db)"
  using assms by (auto simp: respond_def)

lemma stored_minimum_plan:
  assumes "field \<noteq> py ''created_at''" "field \<noteq> py ''updated_at''"
    and "map_of (minimum_plan plan) field = Some v"
  shows "stored_plan_field
           (snd (store_project_plan (Some d) project_id (PDict (minimum_plan plan)) now))
           project_id field = Some v"
proof -
  obtain old where row:
    "plan_row (snd (store_project_plan (Some d) project_id (PDict (minimum_plan plan)) now)) project_id =
       Some (dict_update old (stamped (minimum_plan plan) now))"
    using plan_row_after_store [of "minimum_plan plan" project_id d now]
    by (auto simp: minimum_plan_fields)
  show ?thesis
    using assms by (simp add: stored_plan_field_def row map_of_dict_update map_of_stamped)
qed

lemma route_generates:
  assumes "is_valid project_id"
    and "find_one (project_plans d) (py ''project_id'') (PStr project_id) = None"
    and "find_one (projects d) (py ''_id'') (PObjectId (map lower project_id)) = None"
  shows "generate_plan_for_existing_project (Some d) project_id planner now =
           respond project_id now (planner (Some d) (PDict (placeholder_context project_id)))"
  using assms by (simp add: generate_plan_for_existing_project_def project_context_def)

lemma parse_response_wrapped_plan:
  "parse_response
     (py ''Sure! {'' @ [34] @ py ''project_summary'' @ [34] @ py '': '' @ [34] @ py ''s'' @ [34] @
      py '', '' @ [34] @ py ''key_features_deliverables'' @ [34] @ py '': [], '' @ [34] @
      py ''major_milestones'' @ [34] @ py '': [], '' @ [34] @ py ''high_level_tasks'' @ [34] @
      py '': []}'') =
   Inr (PDict [(py ''project_summary'', PStr (py ''s'')),
               (py ''key_features_deliverables'', PList []),
               (py ''major_milestones'', PList []),
               (py ''high_level_tasks'', PList [])])"
  by code_simp

lemma build_context_placeholder:
  "build_context (placeholder_context project_id) =
     Inr [(py ''title'', PStr (py ''Untitled Project'')),
          (py ''description'', PStr (py ''Project details to be determined'')),
          (py ''status'', PStr (py ''planning'')),
          (py ''team_size'', PInt 0),
          (py ''progress'', PInt 0),
          (py ''tags'', PStr []),
          (py ''deadline'', PStr (py ''Not specified''))]"
  by (simp add: build_context_def placeholder_context_def get_default_def)

lemma generate_project_plan_success:
  assumes "build_context details = Inr context"
    and "fst (call_with_retry (llm (PDict context))) = Inr response"
    and "parse_response response = Inr (PDict plan)"
    and "validate_plan (PDict plan) = Inr ()"
    and "getitem details (py ''_id'') = Inr v"
  shows "generate_project_plan (Some d) (PDict details) llm now =
           (Inr (PDict (stamped plan now)),
            snd (store_project_plan (Some d) (str_value v) (PDict plan) now))"
  using assms by (simp add: generate_project_plan_def generation_def store_project_plan_dict)

lemma generate_project_plan_provider_raises:
  assumes "build_context details = Inr context"
    and "fst (call_with_retry (llm (PDict context))) = Inl e"
  shows "generate_project_plan db (PDict details) llm now =
           (Inr (failure e (py ''Failed to generate project plan.'')), db)"
  using assms by (simp add: generate_project_plan_def generation_def)

section \<open>Plan timestamps\<close>

text \<open>
  Claim C1 says that storing a plan for a project id that already has a plan row keeps the
  row's \<open>created_at\<close> and sets \<open>updated_at\<close> to the current time.
  \<open>store_project_plan\<close> guards the creation time with \<open>if "created_at" not in plan\<close>, but
  the \<open>plan\<close> it tests is the dict it is given, not the stored row, and \<open>$set\<close> then writes
  every field of that dict: a plan without \<open>created_at\<close> gets the current time, which
  replaces the row's. Two stores of fresh plans for the same id, at times 1 and 2: after
  the first the row has \<open>created_at = 1\<close>, after the second it has \<open>created_at = 2\<close>,
  where the claim has it stay 1.
\<close>

theorem store_project_plan_overwrites_created_at:
  "stored_plan_field
     (snd (store_project_plan (Some \<lparr>projects = [], project_plans = []\<rparr>) (py ''p1'')
        (PDict [(py ''project_summary'', PStr (py ''first''))]) 1))
     (py ''p1'') (py ''created_at'') = Some (PDatetime 1) \<and>
   stored_plan_field
     (snd (store_project_plan
        (snd (store_project_plan (Some \<lparr>projects = [], project_plans = []\<rparr>) (py ''p1'')
           (PDict [(py ''project_summary'', PStr (py ''first''))]) 1))
        (py ''p1'') (PDict [(py ''project_summary'', PStr (py ''second''))]) 2))
     (py ''p1'') (py ''created_at'') = Some (PDatetime 2)"
  by (simp add: stored_plan_field_def plan_row_def store_project_plan_def update_one_upsert_def
      find_one_def matches_def stamped_def dict_update_def items_def get_default_def Let_def)

section \<open>Looking a project up\<close>

text \<open>
  Claim C2 says that \<open>get_project\<close> returns an empty result, and raises nothing, for an id
  that is not well-formed. Both copies call \<open>ObjectId(project_id)\<close> inside a handler that
  logs and re-raises: for the id \<open>not-an-id\<close> they raise \<open>InvalidId\<close>.
\<close>

theorem get_project_invalid_id_counterexample:
  "get_project_app (Some \<lparr>projects = [], project_plans = []\<rparr>) (py ''not-an-id'') =
     Inl (InvalidId (py ''not-an-id'')) \<and>
   get_project_planner_agent (Some \<lparr>projects = [], project_plans = []\<rparr>) (py ''not-an-id'') =
     Inl (InvalidId (py ''not-an-id''))"
  by (simp add: get_project_app_def get_project_planner_agent_def ObjectId_def is_valid_def
      py_simps)

text \<open>
  Claim C2, as the code has it. On a connected store, \<open>get_project\<close> raises \<open>InvalidId\<close>
  for an id that is not well-formed; for a well-formed id that no project document has,
  it returns an empty result: \<open>None\<close> in \<open>src/app\<close>, \<open>{}\<close> in \<open>src/planner-agent-\<close>.
\<close>

theorem get_project_not_found:
  "(\<not> is_valid project_id \<longrightarrow>
      get_project_app (Some d) project_id = Inl (InvalidId project_id) \<and>
      get_project_planner_agent (Some d) project_id = Inl (InvalidId project_id)) \<and>
   (is_valid project_id \<and>
    (\<forall>doc \<in> set (projects d). map_of doc (py ''_id'') \<noteq> Some (PObjectId (map lower project_id))) \<longrightarrow>
      get_project_app (Some d) project_id = Inr PNone \<and>
      get_project_planner_agent (Some d) project_id = Inr (PDict []))"
proof (intro conjI impI)
  assume "\<not> is_valid project_id"
  then show "get_project_app (Some d) project_id = Inl (InvalidId project_id)"
    and "get_project_planner_agent (Some d) project_id = Inl (InvalidId project_id)"
    by (simp_all add: get_project_app_def get_project_planner_agent_def)
next
  assume a: "is_valid project_id \<and>
    (\<forall>doc \<in> set (projects d). map_of doc (py ''_id'') \<noteq> Some (PObjectId (map lower project_id)))"
  then have "find_one (projects d) (py ''_id'') (PObjectId (map lower project_id)) = None"
    by (simp add: find_one_None_iff)
  with a show "get_project_app (Some d) project_id = Inr PNone"
    and "get_project_planner_agent (Some d) project_id = Inr (PDict [])"
    by (simp_all add: get_project_app_def get_project_planner_agent_def)
qed

theorem get_project_not_found_witness:
  "get_project_app (Some \<lparr>projects = [], project_plans = []\<rparr>) (py ''xyz'') =
     Inl (InvalidId (py ''xyz'')) \<and>
   get_project_app (Some \<lparr>projects = [], project_plans = []\<rparr>) (py ''0123456789abcdef01234567'') =
     Inr PNone \<and>
   get_project_planner_agent (Some \<lparr>projects = [], project_plans = []\<rparr>)
     (py ''0123456789abcdef01234567'') = Inr (PDict [])"
  using get_project_not_found [of "py ''xyz''" "\<lparr>projects = [], project_plans = []\<rparr>"]
    get_project_not_found [of "py ''0123456789abcdef01234567''" "\<lparr>projects = [], project_plans = []\<rparr>"]
  by (simp add: is_valid_def ishex_def py_simps)

section \<open>C4: validation of the required fields\<close>

text \<open>
  C4. For every parsed plan object, validation looks at the four required top-level fields
  \<open>project_summary\<close>, \<open>key_features_deliverables\<close>, \<open>major_milestones\<close> and
  \<open>high_level_tasks\<close> and at nothing else. When some are absent it fails with
  \<open>ValueError("Missing required fields in plan: ...")\<close>, the message listing exactly the
  absent ones, in the order above and separated by \<open>", "\<close>; when all four are present it
  succeeds, whatever their values are.
\<close>

theorem validate_plan_required_fields:
  "validate_plan (PDict plan) =
     (let missing = filter (\<lambda>field. map_of plan field = None)
                      [py ''project_summary'', py ''key_features_deliverables'',
                       py ''major_milestones'', py ''high_level_tasks'']
      in if missing = [] then Inr ()
         else Inl (ValueError (py ''Missing required fields in plan: '' @ join (py '', '') missing)))
   \<and> (\<forall>summary features milestones tasks.
          map_of plan (py ''project_summary'') = Some summary \<and>
          map_of plan (py ''key_features_deliverables'') = Some features \<and>
          map_of plan (py ''major_milestones'') = Some milestones \<and>
          map_of plan (py ''high_level_tasks'') = Some tasks \<longrightarrow>
          validate_plan (PDict plan) = Inr ())"
  by (simp add: validate_plan_dict required_fields_def missing_required_def Let_def)

theorem validate_plan_required_fields_witness:
  "validate_plan (PDict [(py ''project_summary'', PStr []),
                         (py ''key_features_deliverables'', PList []),
                         (py ''major_milestones'', PList []),
                         (py ''high_level_tasks'', PList [])]) = Inr ()
   \<and> validate_plan (PDict [(py ''project_summary'', PStr (py ''s'')),
                           (py ''major_milestones'', PNone)]) =
       Inl (ValueError (py ''Missing required fields in plan: '' @
                        py ''key_features_deliverables'' @ py '', '' @ py ''high_level_tasks''))"
  using validate_plan_required_fields
          [of "[(py ''project_summary'', PStr []),
                (py ''key_features_deliverables'', PList []),
                (py ''major_milestones'', PList []),
                (py ''high_level_tasks'', PList [])]"]
        validate_plan_required_fields
          [of "[(py ''project_summary'', PStr (py ''s'')), (py ''major_milestones'', PNone)]"]
  by simp

section \<open>Retry policy\<close>

text \<open>
  Claim C5. Whatever the provider does, the retry wrapper calls it at least once and at
  most 3 times, and every call before the last one raised \<open>RateLimitError\<close> or
  \<open>APIError\<close>: an exception of any other class is raised at once, with no further
  call. If the first two calls raise retried exceptions and the third returns, 3 calls
  are made and the third result is returned; if all three raise retried exceptions, the
  wrapper raises (tenacity's \<open>RetryError\<close> around the third exception) after the third
  call. The two waits are 4 seconds each (\<open>wait_exponential\<close> with \<open>min=4\<close>).
\<close>

theorem call_with_retry_policy:
  "(case call_with_retry llm of (result, calls, waits) \<Rightarrow>
      1 \<le> calls \<and> calls \<le> 3 \<and> length waits = calls - 1 \<and>
      (\<forall>i < calls - 1. \<exists>e. llm i = Raises e \<and> retry_if_exception_type e)) \<and>
   (\<forall>e. llm 0 = Raises e \<and> \<not> retry_if_exception_type e \<longrightarrow>
      call_with_retry llm = (Inl e, 1, [])) \<and>
   (\<forall>e0 e1 r. llm 0 = Raises e0 \<and> retry_if_exception_type e0 \<and>
      llm 1 = Raises e1 \<and> retry_if_exception_type e1 \<and> llm 2 = Returns r \<longrightarrow>
      call_with_retry llm = (Inr r, 3, [4, 4])) \<and>
   (\<forall>e0 e1 e2. llm 0 = Raises e0 \<and> retry_if_exception_type e0 \<and>
      llm 1 = Raises e1 \<and> retry_if_exception_type e1 \<and>
      llm 2 = Raises e2 \<and> retry_if_exception_type e2 \<longrightarrow>
      call_with_retry llm = (Inl (RetryError e2), 3, [4, 4]))"
  unfolding retrying_unroll
  by (auto split: outcome.splits simp: less_Suc_eq numeral_2_eq_2)

theorem call_with_retry_policy_witness:
  "call_with_retry (\<lambda>i. Raises (OtherException (py ''boom''))) =
     (Inl (OtherException (py ''boom'')), 1, []) \<and>
   call_with_retry (\<lambda>i. if i < 2 then Raises (RateLimitError (py ''429'')) else Returns (py ''ok'')) =
     (Inr (py ''ok''), 3, [4, 4]) \<and>
   call_with_retry (\<lambda>i. Raises (RateLimitError (py ''429''))) = (Inl (RetryError (RateLimitError (py ''429''))), 3, [4, 4])"
  using call_with_retry_policy [of "\<lambda>i. Raises (OtherException (py ''boom''))"]
    call_with_retry_policy [of "\<lambda>i. if i < 2 then Raises (RateLimitError (py ''429'')) else Returns (py ''ok'')"]
    call_with_retry_policy [of "\<lambda>i. Raises (RateLimitError (py ''429''))"]
  by simp

section \<open>C6: what the refiner returns\<close>




section \<open>C7: the pipelines return their failures\<close>

text \<open>
  C7. Plan generation and task refinement never raise: for every store, input, provider
  and clock both return a result. The result of plan generation is either the dict
  \<open>{"error": str(e), "message": ...}\<close> for some exception \<open>e\<close>, which has an \<open>error\<close>
  and a \<open>message\<close> field, or the stored plan, and it is the plan only when every step
  went through: the context was built, the provider answered within the retries, the
  answer parsed, the four fields were there, the project had an \<open>_id\<close> and the store took
  the plan. Likewise the result of task refinement is either such a failure dict or the
  dict of the project id, the refined and the original tasks, and it is the latter only
  when the store is connected, the tasks could be serialised, the provider answered and
  the answer parsed.
\<close>

theorem pipelines_return_failures:
  "(\<exists>r. fst (generate_project_plan db project_details llm now) = Inr r \<and>
      ((\<exists>e message. r = PDict [(py ''error'', PStr (str_exn e)), (py ''message'', PStr message)] \<and>
           contains r (py ''error'') = Inr True \<and> contains r (py ''message'') = Inr True) \<or>
       (\<exists>details context response plan_json v stored.
           project_details = PDict details \<and>
           build_context details = Inr context \<and>
           fst (call_with_retry (llm (PDict context))) = Inr response \<and>
           parse_response response = Inr plan_json \<and>
           validate_plan plan_json = Inr () \<and>
           getitem details (py ''_id'') = Inr v \<and>
           fst (store_project_plan db (str_value v) plan_json now) = Inr stored \<and>
           r = PDict stored))) \<and>
   (\<exists>r. fst (refine_project_tasks db' project_id tasks llm' now0 now1 now2) = Inr r \<and>
      ((\<exists>e message. r = PDict [(py ''error'', PStr (str_exn e)), (py ''message'', PStr message)] \<and>
           contains r (py ''error'') = Inr True \<and> contains r (py ''message'') = Inr True) \<or>
       (\<exists>d response refined_tasks.
           db' = Some d \<and> serializable tasks \<and>
           fst (call_with_retry (llm' tasks)) = Inr response \<and>
           json_loads (cleaned_response LBRACKET RBRACKET response) = Inr refined_tasks \<and>
           r = PDict [(py ''project_id'', PStr project_id),
                      (py ''refined_tasks'', refined_tasks),
                      (py ''original_tasks'', tasks)])))"
  using generate_project_plan_outcome [of db project_details llm now]
        refine_project_tasks_outcome [of db' project_id tasks llm' now0 now1 now2]
  by (rule conjI)

section \<open>Soft delete\<close>



section \<open>C9: the plan route without a project\<close>

text \<open>
  Claim C9 says that \<open>GET /projects/{id}/plan\<close>, for a well-formed id that has neither a
  stored plan nor a project, generates a plan from a placeholder context, stores it and
  answers with success. The handler does go on without the project, but the answer is a
  success only when the planner gives a plan: a planner result with an \<open>error\<close> field
  is answered with status 500. On an empty store, with a provider that refuses the
  connection, the planner of \<open>planner.py\<close> returns its failure dict and the route answers
  500 with the dict's message.
\<close>

theorem plan_route_generation_fails_counterexample:
  "fst (generate_plan_for_existing_project (Some \<lparr>projects = [], project_plans = []\<rparr>)
          (py ''0123456789abcdef01234567'')
          (\<lambda>db context. generate_project_plan db context
             (\<lambda>prompt i. Raises (OtherException (py ''connection refused''))) 5)
          9) =
   HTTPError 500 (PStr (py ''Failed to generate project plan.''))"
proof -
  have v: "is_valid (py ''0123456789abcdef01234567'')"
    by (simp add: is_valid_def ishex_def py_simps)
  have g: "generate_project_plan (Some \<lparr>projects = [], project_plans = []\<rparr>)
             (PDict (placeholder_context (py ''0123456789abcdef01234567'')))
             (\<lambda>prompt i. Raises (OtherException (py ''connection refused''))) 5 =
           (Inr (failure (OtherException (py ''connection refused''))
                   (py ''Failed to generate project plan.'')),
            Some \<lparr>projects = [], project_plans = []\<rparr>)"
    by (rule generate_project_plan_provider_raises [OF build_context_placeholder])
       (simp add: call_with_retry_raises)
  show ?thesis
    by (simp add: route_generates [OF v] g)
       (simp add: failure_def respond_error get_default_def del: str_exn.simps)
qed

text \<open>
  Claim C9, as the code has it. For a well-formed project id that has no stored plan and
  no project document, the handler never answers 404. It hands the planner the
  placeholder context (the id, title \<open>"Untitled Project"\<close>, status \<open>"planning"\<close>,
  progress 0, no tags, no team) and answers from what the planner returns. When that is
  a plan, a dict with no \<open>error\<close> field, the handler cuts it down to the four required
  fields, each with its default when absent, stores that under the id and returns it,
  with the two timestamps the store wrote into it, with success. When it is a dict with
  an \<open>error\<close> field the handler answers 500 with the dict's \<open>message\<close>, and stores
  nothing itself.
\<close>

theorem plan_route_without_project:
  assumes "is_valid project_id"
    and "plan_row (Some d) project_id = None"
    and "project_doc (Some d) (map lower project_id) = None"
  shows "generate_plan_for_existing_project (Some d) project_id planner now =
           respond project_id now
             (planner (Some d)
                (PDict [(py ''_id'', PStr project_id),
                     (py ''title'', PStr (py ''Untitled Project'')),
                     (py ''description'', PStr (py ''Project details to be determined'')),
                     (py ''status'', PStr (py ''planning'')),
                     (py ''tags'', PList []),
                     (py ''team'', PList []),
                     (py ''progress'', PInt 0)])) \<and>
         (\<forall>llm now' detail.
            fst (generate_plan_for_existing_project (Some d) project_id
                   (\<lambda>db context. generate_project_plan db context llm now') now) \<noteq>
            HTTPError 404 detail) \<and>
         (\<forall>plan d'.
            planner (Some d) (PDict [(py ''_id'', PStr project_id),
                     (py ''title'', PStr (py ''Untitled Project'')),
                     (py ''description'', PStr (py ''Project details to be determined'')),
                     (py ''status'', PStr (py ''planning'')),
                     (py ''tags'', PList []),
                     (py ''team'', PList []),
                     (py ''progress'', PInt 0)]) = (Inr (PDict plan), Some d') \<and>
            map_of plan (py ''error'') = None \<longrightarrow>
            fst (generate_plan_for_existing_project (Some d) project_id planner now) =
              Success (PDict
                [(py ''project_summary'', get_default plan (py ''project_summary'')
                    (PStr (py ''Project summary to be determined''))),
                 (py ''key_features_deliverables'',
                    get_default plan (py ''key_features_deliverables'') (PList [])),
                 (py ''major_milestones'', get_default plan (py ''major_milestones'') (PList [])),
                 (py ''high_level_tasks'', get_default plan (py ''high_level_tasks'') (PList [])),
                 (py ''updated_at'', PDatetime now),
                 (py ''created_at'', PDatetime now)]) \<and>
            stored_plan_field (snd (generate_plan_for_existing_project (Some d) project_id planner now)) project_id (py ''project_summary'') =
              Some (get_default plan (py ''project_summary'')
                      (PStr (py ''Project summary to be determined''))) \<and>
            stored_plan_field (snd (generate_plan_for_existing_project (Some d) project_id planner now)) project_id (py ''key_features_deliverables'') =
              Some (get_default plan (py ''key_features_deliverables'') (PList [])) \<and>
            stored_plan_field (snd (generate_plan_for_existing_project (Some d) project_id planner now)) project_id (py ''major_milestones'') =
              Some (get_default plan (py ''major_milestones'') (PList [])) \<and>
            stored_plan_field (snd (generate_plan_for_existing_project (Some d) project_id planner now)) project_id (py ''high_level_tasks'') =
              Some (get_default plan (py ''high_level_tasks'') (PList []))) \<and>
         (\<forall>plan db'.
            planner (Some d) (PDict [(py ''_id'', PStr project_id),
                     (py ''title'', PStr (py ''Untitled Project'')),
                     (py ''description'', PStr (py ''Project details to be determined'')),
                     (py ''status'', PStr (py ''planning'')),
                     (py ''tags'', PList []),
                     (py ''team'', PList []),
                     (py ''progress'', PInt 0)]) = (Inr (PDict plan), db') \<and>
            map_of plan (py ''error'') \<noteq> None \<longrightarrow>
            generate_plan_for_existing_project (Some d) project_id planner now =
              (HTTPError 500 (get_default plan (py ''message'') (PStr (py ''Failed to generate plan''))),
               db'))"
proof -
  have np: "find_one (project_plans d) (py ''project_id'') (PStr project_id) = None"
    using assms(2) by (simp add: plan_row_def)
  have nd: "find_one (projects d) (py ''_id'') (PObjectId (map lower project_id)) = None"
    using assms(3) by (simp add: project_doc_def)
  have route: "generate_plan_for_existing_project (Some d) project_id planner now =
                 respond project_id now
                   (planner (Some d) (PDict (placeholder_context project_id)))" for planner
    by (rule route_generates [OF assms(1) np nd])
  have ph: "placeholder_context project_id = [(py ''_id'', PStr project_id),
                     (py ''title'', PStr (py ''Untitled Project'')),
                     (py ''description'', PStr (py ''Project details to be determined'')),
                     (py ''status'', PStr (py ''planning'')),
                     (py ''tags'', PList []),
                     (py ''team'', PList []),
                     (py ''progress'', PInt 0)]"
    by (simp add: placeholder_context_def)
  have never: "fst (generate_plan_for_existing_project (Some d) project_id
                   (\<lambda>db context. generate_project_plan db context llm now') now) \<noteq>
               HTTPError 404 detail" for llm now' detail
  proof -
    obtain r db' where g: "generate_project_plan (Some d) (PDict (placeholder_context project_id))
                             llm now' = (Inr r, db')"
      using generate_project_plan_outcome
              [of "Some d" "PDict (placeholder_context project_id)" llm now']
      by (cases "generate_project_plan (Some d) (PDict (placeholder_context project_id)) llm now'")
         auto
    show ?thesis by (simp add: route g respond_not_404)
  qed
  have ok: "fst (generate_plan_for_existing_project (Some d) project_id planner now) =
              Success (PDict (stamped (minimum_plan plan) now)) \<and>
            (\<forall>field v. field \<noteq> py ''created_at'' \<and> field \<noteq> py ''updated_at'' \<and>
               map_of (minimum_plan plan) field = Some v \<longrightarrow>
               stored_plan_field (snd (generate_plan_for_existing_project (Some d) project_id planner now)) project_id field = Some v)"
    if "planner (Some d) (PDict (placeholder_context project_id)) = (Inr (PDict plan), Some d')"
      and "map_of plan (py ''error'') = None" for plan d'
    using that by (simp add: route respond_plan stored_minimum_plan)
  have err: "generate_plan_for_existing_project (Some d) project_id planner now =
              (HTTPError 500 (get_default plan (py ''message'') (PStr (py ''Failed to generate plan''))),
               db')"
    if "planner (Some d) (PDict (placeholder_context project_id)) = (Inr (PDict plan), db')"
      and "map_of plan (py ''error'') \<noteq> None" for plan db'
    using that by (simp add: route respond_error)
  show ?thesis
    unfolding ph [symmetric]
  proof (intro conjI allI impI)
    show "generate_plan_for_existing_project (Some d) project_id planner now =
           respond project_id now (planner (Some d) (PDict (placeholder_context project_id)))"
      by (rule route)
  qed (use never ok err in \<open>simp_all add: stamped_minimum_plan minimum_plan_fields
         minimum_plan_def [where plan = plan for plan, symmetric]\<close>)
qed

theorem plan_route_without_project_witness:
  "fst (generate_plan_for_existing_project (Some \<lparr>projects = [], project_plans = []\<rparr>)
          (py ''0123456789abcdef01234567'')
          (\<lambda>db context. generate_project_plan db context
             (\<lambda>prompt i. Returns
     (py ''Sure! {'' @ [34] @ py ''project_summary'' @ [34] @ py '': '' @ [34] @ py ''s'' @ [34] @
      py '', '' @ [34] @ py ''key_features_deliverables'' @ [34] @ py '': [], '' @ [34] @
      py ''major_milestones'' @ [34] @ py '': [], '' @ [34] @ py ''high_level_tasks'' @ [34] @
      py '': []}'')) 5)
          9) =
   Success (PDict [(py ''project_summary'', PStr (py ''s'')),
                   (py ''key_features_deliverables'', PList []),
                   (py ''major_milestones'', PList []),
                   (py ''high_level_tasks'', PList []),
                   (py ''updated_at'', PDatetime 9),
                   (py ''created_at'', PDatetime 9)])"
proof -
  have v: "is_valid (py ''0123456789abcdef01234567'')"
    by (simp add: is_valid_def ishex_def py_simps)
  have np: "plan_row (Some \<lparr>projects = [], project_plans = []\<rparr>) (py ''0123456789abcdef01234567'') = None"
    by (simp add: plan_row_def)
  have nd: "project_doc (Some \<lparr>projects = [], project_plans = []\<rparr>) (map lower (py ''0123456789abcdef01234567'')) = None"
    by (simp add: project_doc_def)
  have cw: "fst (call_with_retry ((\<lambda>prompt i. Returns
     (py ''Sure! {'' @ [34] @ py ''project_summary'' @ [34] @ py '': '' @ [34] @ py ''s'' @ [34] @
      py '', '' @ [34] @ py ''key_features_deliverables'' @ [34] @ py '': [], '' @ [34] @
      py ''major_milestones'' @ [34] @ py '': [], '' @ [34] @ py ''high_level_tasks'' @ [34] @
      py '': []}'')) (PDict ctx))) = Inr
     (py ''Sure! {'' @ [34] @ py ''project_summary'' @ [34] @ py '': '' @ [34] @ py ''s'' @ [34] @
      py '', '' @ [34] @ py ''key_features_deliverables'' @ [34] @ py '': [], '' @ [34] @
      py ''major_milestones'' @ [34] @ py '': [], '' @ [34] @ py ''high_level_tasks'' @ [34] @
      py '': []}'')" for ctx
    by (simp add: call_with_retry_returns)
  have val: "validate_plan (PDict [(py ''project_summary'', PStr (py ''s'')),
               (py ''key_features_deliverables'', PList []),
               (py ''major_milestones'', PList []),
               (py ''high_level_tasks'', PList [])]) = Inr ()"
    by (simp add: validate_plan_dict required_fields_def)
  have gi: "getitem (placeholder_context (py ''0123456789abcdef01234567'')) (py ''_id'') = Inr (PStr (py ''0123456789abcdef01234567''))"
    by (simp add: getitem_def placeholder_context_def)
  obtain d' where st: "snd (store_project_plan (Some \<lparr>projects = [], project_plans = []\<rparr>) (str_value (PStr (py ''0123456789abcdef01234567'')))
                              (PDict [(py ''project_summary'', PStr (py ''s'')),
               (py ''key_features_deliverables'', PList []),
               (py ''major_milestones'', PList []),
               (py ''high_level_tasks'', PList [])]) 5) = Some d'"
    by (simp add: store_project_plan_dict)
  note gen = generate_project_plan_success
      [OF build_context_placeholder cw parse_response_wrapped_plan val gi,
       of "\<lparr>projects = [], project_plans = []\<rparr>" 5, unfolded st placeholder_context_def]
  have noerr: "map_of (stamped [(py ''project_summary'', PStr (py ''s'')),
               (py ''key_features_deliverables'', PList []),
               (py ''major_milestones'', PList []),
               (py ''high_level_tasks'', PList [])] 5) (py ''error'') = None"
    by (simp add: map_of_stamped)
  note ok = plan_route_without_project [OF v np nd, THEN conjunct2, THEN conjunct2,
      THEN conjunct1, rule_format,
      of "\<lambda>db context. generate_project_plan db context
             (\<lambda>prompt i. Returns
     (py ''Sure! {'' @ [34] @ py ''project_summary'' @ [34] @ py '': '' @ [34] @ py ''s'' @ [34] @
      py '', '' @ [34] @ py ''key_features_deliverables'' @ [34] @ py '': [], '' @ [34] @
      py ''major_milestones'' @ [34] @ py '': [], '' @ [34] @ py ''high_level_tasks'' @ [34] @
      py '': []}'')) 5"
         "stamped [(py ''project_summary'', PStr (py ''s'')),
               (py ''key_features_deliverables'', PList []),
               (py ''major_milestones'', PList []),
               (py ''high_level_tasks'', PList [])] 5" d' 9, OF conjI [OF gen noerr], THEN conjunct1]
  then show ?thesis
    by (simp add: get_default_def map_of_stamped)
qed

section \<open>The two copies of get\_project\<close>

text \<open>
  Claim C10 says that the two copies of \<open>get_project\<close> return the same value for every
  id and store, in particular when the project is absent. For a well-formed id and a
  store without that project, \<open>src/app\<close> returns \<open>None\<close> and \<open>src/planner-agent-\<close>
  returns \<open>{}\<close>.
\<close>

theorem get_project_copies_differ_counterexample:
  "get_project_app (Some \<lparr>projects = [], project_plans = []\<rparr>) (py ''0123456789abcdef01234567'') =
     Inr PNone \<and>
   get_project_planner_agent (Some \<lparr>projects = [], project_plans = []\<rparr>)
     (py ''0123456789abcdef01234567'') = Inr (PDict []) \<and>
   get_project_app (Some \<lparr>projects = [], project_plans = []\<rparr>) (py ''0123456789abcdef01234567'') \<noteq>
   get_project_planner_agent (Some \<lparr>projects = [], project_plans = []\<rparr>)
     (py ''0123456789abcdef01234567'')"
  by (simp add: get_project_app_def get_project_planner_agent_def ObjectId_def is_valid_def
      ishex_def py_simps)

text \<open>
  Claim C10, as the code has it. The two copies raise the same exceptions and return the
  same document when the project is found; when it is absent, \<open>src/app\<close> returns \<open>None\<close>
  where \<open>src/planner-agent-\<close> returns \<open>{}\<close>. The two results always have the same
  truth value, which is all a caller testing \<open>if project:\<close> sees.
\<close>

theorem get_project_copies:
  "(case get_project_app db project_id of
      Inr PNone \<Rightarrow> get_project_planner_agent db project_id = Inr (PDict [])
    | r \<Rightarrow> get_project_planner_agent db project_id = r) \<and>
   map_sum id truthy (get_project_app db project_id) =
   map_sum id truthy (get_project_planner_agent db project_id)"
  using get_project_found_not_None
  by (auto simp: get_project_app_def get_project_planner_agent_def
      split: option.splits sum.splits pyval.splits)

end
